theory Spec2Isabelle
  imports Complex_Main
begin

section \<open>Quiz engine of the tutoring agent (tools/quiz_tools.py)\<close>

text \<open>
  The quiz tools are modelled as pure functions over the session state. Every tool takes
  the environment of the call (room, remote peer, fresh identifiers), its arguments and
  the session state, and returns what the coroutine returns (a string) or raises (an
  error value), together with the session state it leaves behind.
\<close>

subsection \<open>Python strings and integers\<close>

text \<open>
  A Python string is the list of the bytes of its UTF-8 encoding, so a string is ASCII
  exactly when every byte is below 128. On ASCII letters \<open>str.upper\<close> and \<open>str.lower\<close>
  are the ASCII case tables, and every other ASCII character is left as it is.
\<close>

definition upper_char :: "char \<Rightarrow> char" where
  "upper_char c =
     (let n = (of_char c :: nat) in if 97 \<le> n \<and> n \<le> 122 then char_of (n - 32) else c)"

definition lower_char :: "char \<Rightarrow> char" where
  "lower_char c =
     (let n = (of_char c :: nat) in if 65 \<le> n \<and> n \<le> 90 then char_of (n + 32) else c)"

definition is_ascii :: "char \<Rightarrow> bool" where
  "is_ascii c = ((of_char c :: nat) < 128)"

text \<open>
  \<open>str.upper\<close>: on an ASCII string it is the ASCII table. Outside ASCII it follows the
  Unicode case mapping of the interpreter, which can change the length of the string
  (the sharp s becomes SS); that mapping is the parameter \<open>u\<close>.
\<close>

definition upper :: "(string \<Rightarrow> string) \<Rightarrow> string \<Rightarrow> string" where
  "upper u s = (if list_all is_ascii s then map upper_char s else u s)"

text \<open>
  \<open>str.lower\<close> is read by \<open>create_quiz\<close> only to look a key up among ASCII words
  (three topics, three difficulties). The only character outside ASCII whose lower-case
  image is an ASCII character is the Kelvin sign (giving k), and no key contains a k, so
  a string with a byte outside ASCII never lower-cases to a key, as here.
\<close>

definition lower :: "string \<Rightarrow> string" where
  "lower s = map lower_char s"

text \<open>The decimal rendering of an integer inside an f-string.\<close>

definition digit_char :: "nat \<Rightarrow> char" where
  "digit_char d = char_of (48 + d)"

function str_nat :: "nat \<Rightarrow> string" where
  "str_nat n = (if n < 10 then [digit_char n] else str_nat (n div 10) @ [digit_char (n mod 10)])"
  by pat_completeness auto
termination
  by (relation "measure id") auto

declare str_nat.simps [simp del]

definition str_int :: "int \<Rightarrow> string" where
  "str_int i = (if i < 0 then CHR ''-'' # str_nat (nat (- i)) else str_nat (nat i))"

datatype py_error = IndexError | ZeroDivisionError | AttributeError

text \<open>
  \<open>xs[i]\<close>: a negative index counts from the end, an index out of range raises
  IndexError. The position is returned so that the object read can be updated in place.
\<close>

definition py_index :: "'a list \<Rightarrow> int \<Rightarrow> py_error + nat" where
  "py_index xs i =
     (let n = int (length xs); j = (if i < 0 then n + i else i)
      in if 0 \<le> j \<and> j < n then Inr (nat j) else Inl IndexError)"

text \<open>\<open>xs[:n]\<close>: a negative bound counts from the end.\<close>

definition py_slice_to :: "'a list \<Rightarrow> int \<Rightarrow> 'a list" where
  "py_slice_to xs n = (if n < 0 then take (length xs - nat (- n)) xs else take (nat n) xs)"

text \<open>
  \<open>int(score / total * 100)\<close>: true division, then truncation towards zero; a zero
  divisor raises. Python divides in double precision; the quotient is modelled exactly.
  Both agree for every \<open>0 \<le> score \<le> total \<le> 10\<close>, the largest quiz the clamp of
  \<open>create_quiz\<close> admits (the first disagreement is score 29 of 50).
\<close>

definition py_int_trunc :: "rat \<Rightarrow> int" where
  "py_int_trunc r = (if 0 \<le> r then \<lfloor>r\<rfloor> else \<lceil>r\<rceil>)"

definition percentage_of :: "int \<Rightarrow> nat \<Rightarrow> py_error + int" where
  "percentage_of s n =
     (if n = 0 then Inl ZeroDivisionError
      else Inr (py_int_trunc (rat_of_int s / rat_of_int (int n) * 100)))"

subsection \<open>Data model\<close>

text \<open>
  Modelled from the spec: the declarations of \<open>QuizQuestion\<close> and \<open>Quiz\<close> (imported by
  quiz_tools.py from src.models) are not part of models.py as given. The fields are those
  of the spec's data model, with the names the constructor calls and attribute accesses
  of quiz_tools.py use; \<open>user_answer\<close> and \<open>is_correct\<close> are initially absent.
\<close>

record QuizQuestion =
  question_id :: string
  question_text :: string
  options :: "string list"
  correct_answer :: string
  explanation :: string
  user_answer :: "string option"
  is_correct :: "bool option"

record Quiz =
  quiz_id :: string
  topic :: string
  difficulty :: string
  questions :: "QuizQuestion list"
  current_question_index :: int
  score :: int
  completed :: bool

text \<open>
  An entry of \<open>quiz_history\<close> is the dict that \<open>create_quiz\<close> appends; the keys
  \<open>score\<close> and \<open>percentage\<close> are absent until the completion of the quiz adds them.
\<close>

record history_entry =
  hist_id :: string
  hist_topic :: string
  hist_difficulty :: string
  status :: string
  created_at :: string
  hist_score :: "string option"
  percentage :: "int option"

text \<open>
  The dataclass \<open>UserData\<close> of models.py declares \<open>ctx\<close>, \<open>name\<close>, \<open>age\<close>,
  \<open>components\<close>, \<open>last_canvas_drawing\<close> and \<open>canvas_history\<close>; it declares neither
  \<open>current_quiz\<close> nor \<open>quiz_history\<close>. The quiz tools reach both as attributes of the
  instance: an attribute that was never assigned is absent, and reading it raises
  AttributeError; an assignment creates it. \<open>create_quiz\<close> assigns \<open>current_quiz\<close>; no
  statement of the repository assigns \<open>quiz_history\<close>. Of the declared fields the quiz
  tools read only \<open>ctx\<close>, which is part of the environment of the call below.
\<close>

datatype 'a attr = Absent | Present 'a

record UserData =
  current_quiz :: "Quiz option attr"
  quiz_history :: "history_entry list attr"

text \<open>\<open>UserData(ctx=ctx)\<close>, as the session creates it: neither attribute exists.\<close>

definition initial_userdata :: UserData where
  "initial_userdata = \<lparr>current_quiz = Absent, quiz_history = Absent\<rparr>"

subsection \<open>The question catalog\<close>

text \<open>
  \<open>_generate_quiz_questions\<close> builds the sample bank anew at every call: four questions,
  each with a fresh identifier (\<open>uuid\<close> gives the identifiers drawn during the call, in
  the order in which they are drawn). The difficulty is a parameter that the body never
  reads.
\<close>

definition new_question :: "string \<Rightarrow> string \<Rightarrow> string list \<Rightarrow> string \<Rightarrow> string \<Rightarrow> QuizQuestion" where
  "new_question i t os c x =
     \<lparr>question_id = i, question_text = t, options = os, correct_answer = c,
      explanation = x, user_answer = None, is_correct = None\<rparr>"

definition algebra_questions :: "(nat \<Rightarrow> string) \<Rightarrow> QuizQuestion list" where
  "algebra_questions uuid =
     [new_question (uuid 0) ''What is 2x + 5 = 15? Solve for x.''
        [''A) x = 5'', ''B) x = 10'', ''C) x = 7'', ''D) x = 3''] ''A''
        ''Subtract 5 from both sides: 2x = 10, then divide by 2: x = 5'',
      new_question (uuid 1) ''Simplify: 3(x + 2) - 2x''
        [''A) x + 6'', ''B) 5x + 6'', ''C) x + 2'', ''D) 3x + 6''] ''A''
        ''3(x + 2) - 2x = 3x + 6 - 2x = x + 6'']"

definition geometry_questions :: "(nat \<Rightarrow> string) \<Rightarrow> QuizQuestion list" where
  "geometry_questions uuid =
     [new_question (uuid 2) ''What is the area of a rectangle with length 8 and width 5?''
        [''A) 13'', ''B) 40'', ''C) 26'', ''D) 32''] ''B''
        (''Area = length '' @ [CHR 0xC3, CHR 0x97] @ '' width = 8 '' @ [CHR 0xC3, CHR 0x97] @ '' 5 = 40'')]"

definition fractions_questions :: "(nat \<Rightarrow> string) \<Rightarrow> QuizQuestion list" where
  "fractions_questions uuid =
     [new_question (uuid 3) ''What is 1/2 + 1/4?''
        [''A) 2/6'', ''B) 3/4'', ''C) 1/6'', ''D) 2/4''] ''B''
        ''1/2 + 1/4 = 2/4 + 1/4 = 3/4'']"

definition sample_questions :: "(nat \<Rightarrow> string) \<Rightarrow> (string \<times> QuizQuestion list) list" where
  "sample_questions uuid =
     [(''algebra'', algebra_questions uuid),
      (''geometry'', geometry_questions uuid),
      (''fractions'', fractions_questions uuid)]"

text \<open>
  \<open>sample_questions.get(topic.lower(), sample_questions["algebra"])[:num_questions]\<close>;
  the default is the entry under the literal key \<open>algebra\<close> of the literal dict.
\<close>

definition generate_quiz_questions ::
  "(nat \<Rightarrow> string) \<Rightarrow> string \<Rightarrow> int \<Rightarrow> string \<Rightarrow> QuizQuestion list" where
  "generate_quiz_questions uuid topic0 num_questions difficulty0 =
     (let questions0 =
            (case map_of (sample_questions uuid) (lower topic0) of
               Some qs \<Rightarrow> qs
             | None \<Rightarrow> algebra_questions uuid)
      in py_slice_to questions0 num_questions)"

subsection \<open>The environment of a tool call\<close>

text \<open>
  What one RPC exchange yields: \<open>asyncio.wait_for\<close> times out, \<open>perform_rpc\<close> raises,
  \<open>json.loads\<close> raises on the body, the decoded value is not an object (so \<open>.get\<close>
  raises), or the body is an object, of which the tools read the truth value of \<open>ok\<close>
  and, in \<open>create_quiz\<close>, the text of \<open>error\<close> when the key is present. The raised
  faults carry the text of \<open>str(e)\<close>.
\<close>

datatype rpc_result =
  RpcTimeout
| RpcRaised string
| BodyNotJson string
| BodyNotObject string
| BodyObject bool "string option"

text \<open>The JSON action requests of the quiz protocol.\<close>

datatype question_payload =
  QuestionPayload (q_index: int) (q_text: string) (q_options: "string list") (q_id: string)

datatype result_row =
  ResultRow (question_number: int) (row_question: string) (row_correct_answer: string)
    (row_user_answer: string) (row_is_correct: "bool option")

datatype action_request =
  StartQuiz string string string int question_payload
| NextQuestion string question_payload int int int
| CompleteQuiz string int int int
| ShowResults string int int int "result_row list"

text \<open>
  \<open>room\<close> is \<open>None\<close> when \<open>userdata.ctx\<close> or its room is missing, and otherwise the
  identities of the remote participants in enumeration order; \<open>rpc\<close> is the remote
  peer, answering the request sent to an identity; \<open>uuid4\<close> gives the identifiers that
  \<open>uuid.uuid4()\<close> returns during the call; \<open>unicode_upper\<close> is the interpreter's
  \<open>str.upper\<close> on strings outside ASCII.
\<close>

record env =
  room :: "string list option"
  rpc :: "string \<Rightarrow> action_request \<Rightarrow> rpc_result"
  uuid4 :: "nat \<Rightarrow> string"
  unicode_upper :: "string \<Rightarrow> string"

text \<open>\<open>next(iter(participants.values()), None)\<close>\<close>

definition first_participant :: "string list \<Rightarrow> string option" where
  "first_participant ps = (case ps of [] \<Rightarrow> None | p # _ \<Rightarrow> Some p)"

text \<open>\<open>f"{score}/{len(questions)}"\<close>\<close>

definition score_text :: "Quiz \<Rightarrow> string" where
  "score_text quiz = str_int (score quiz) @ ''/'' @ str_int (int (length (questions quiz)))"

subsection \<open>The helpers that talk to the frontend\<close>

text \<open>
  \<open>_show_next_question\<close>: no state is written. The question is read and the request
  built inside the \<open>try\<close>, so an index out of range there is caught like any fault of
  the exchange.
\<close>

definition show_next_question :: "env \<Rightarrow> Quiz \<Rightarrow> string" where
  "show_next_question e quiz =
     (case room e of
        None \<Rightarrow> ''Moving to next question, but couldn't display it''
      | Some participants \<Rightarrow>
          if participants = [] then ''No participants''
          else (case first_participant participants of
            None \<Rightarrow> ''Couldn't get participant''
          | Some participant \<Rightarrow>
              (case py_index (questions quiz) (current_question_index quiz) of
                 Inl err \<Rightarrow> ''Moving to next question''
               | Inr pos \<Rightarrow>
                   (let next_question = questions quiz ! pos;
                        payload = NextQuestion (quiz_id quiz)
                          (QuestionPayload (current_question_index quiz)
                             (question_text next_question) (options next_question)
                             (question_id next_question))
                          (current_question_index quiz + 1)
                          (int (length (questions quiz)))
                          (score quiz)
                    in (case rpc e participant payload of
                          BodyObject ok err \<Rightarrow>
                            if ok then ''Moving to question '' @ str_int (current_question_index quiz + 1) @ ''.''
                            else ''Next question ready (Question '' @ str_int (current_question_index quiz + 1) @ '')''
                        | _ \<Rightarrow> ''Moving to next question'')))))"

text \<open>
  The loop of \<open>_complete_quiz\<close> over the history: every entry whose id is the quiz's is
  updated in place, every other entry is left as it is, and the order is kept.
\<close>

definition mark_completed :: "Quiz \<Rightarrow> int \<Rightarrow> history_entry \<Rightarrow> history_entry" where
  "mark_completed quiz pct q =
     (if hist_id q = quiz_id quiz
      then q\<lparr>status := ''completed'', hist_score := Some (score_text quiz), percentage := Some pct\<rparr>
      else q)"

text \<open>
  \<open>_complete_quiz\<close>: the percentage and the loop over \<open>userdata.quiz_history\<close> come
  before the \<open>try\<close>, so a zero divisor and a missing history attribute are raised to
  the caller.
\<close>

definition complete_quiz_reply :: "env \<Rightarrow> Quiz \<Rightarrow> int \<Rightarrow> string" where
  "complete_quiz_reply e quiz pct =
     (case room e of
        None \<Rightarrow> ''Quiz completed! Final score: '' @ score_text quiz @ '' ('' @ str_int pct @ ''%)''
      | Some participants \<Rightarrow>
          if participants = [] then ''Quiz completed! Score: '' @ score_text quiz
          else (case first_participant participants of
            None \<Rightarrow> ''Quiz completed! Score: '' @ score_text quiz
          | Some participant \<Rightarrow>
              (let payload = CompleteQuiz (quiz_id quiz) (score quiz)
                               (int (length (questions quiz))) pct
               in (case rpc e participant payload of
                     BodyObject ok err \<Rightarrow>
                       if ok then ''Quiz completed! You scored '' @ score_text quiz @ '' ('' @ str_int pct @ ''%). Great job!''
                       else ''Quiz completed! Score: '' @ score_text quiz @ '' ('' @ str_int pct @ ''%)''
                   | _ \<Rightarrow> ''Quiz completed! Final score: '' @ score_text quiz @ '' ('' @ str_int pct @ ''%)''))))"

definition complete_quiz :: "env \<Rightarrow> UserData \<Rightarrow> Quiz \<Rightarrow> (py_error + string) \<times> UserData" where
  "complete_quiz e userdata quiz =
     (case percentage_of (score quiz) (length (questions quiz)) of
        Inl err \<Rightarrow> (Inl err, userdata)
      | Inr pct \<Rightarrow>
          (case quiz_history userdata of
             Absent \<Rightarrow> (Inl AttributeError, userdata)
           | Present history \<Rightarrow>
               (Inr (complete_quiz_reply e quiz pct),
                userdata\<lparr>quiz_history := Present (map (mark_completed quiz pct) history)\<rparr>)))"

subsection \<open>The tools\<close>

text \<open>
  The request of \<open>create_quiz\<close> is built inside the \<open>try\<close>; the only fault of building
  it is the index error of \<open>questions[0]\<close> on an empty list, whose text the handler
  puts into its reply.
\<close>

definition start_quiz_payload :: "Quiz \<Rightarrow> py_error + action_request" where
  "start_quiz_payload quiz =
     (case py_index (questions quiz) 0 of
        Inl err \<Rightarrow> Inl err
      | Inr pos \<Rightarrow>
          (let q0 = questions quiz ! pos
           in Inr (StartQuiz (quiz_id quiz) (topic quiz) (difficulty quiz)
                     (int (length (questions quiz)))
                     (QuestionPayload 0 (question_text q0) (options q0) (question_id q0)))))"

definition create_quiz_reply :: "env \<Rightarrow> Quiz \<Rightarrow> int \<Rightarrow> string" where
  "create_quiz_reply e quiz num_questions =
     (case room e of
        None \<Rightarrow> ''Created a '' @ str_int num_questions @ ''-question quiz on '' @ topic quiz
                 @ '', but couldn't display it''
      | Some participants \<Rightarrow>
          if participants = [] then ''Quiz created, but no participants found to send it to''
          else (case first_participant participants of
            None \<Rightarrow> ''Quiz created, but couldn't get the first participant''
          | Some participant \<Rightarrow>
              (case start_quiz_payload quiz of
                 Inl err \<Rightarrow> ''Created quiz but encountered an error displaying it: ''
                            @ ''list index out of range''
               | Inr payload \<Rightarrow>
                   (case rpc e participant payload of
                      RpcTimeout \<Rightarrow> ''Quiz created but the display timed out. Please try again.''
                    | RpcRaised msg \<Rightarrow> ''Created quiz but encountered an error displaying it: '' @ msg
                    | BodyNotJson msg \<Rightarrow> ''Created quiz but encountered an error displaying it: '' @ msg
                    | BodyNotObject msg \<Rightarrow> ''Created quiz but encountered an error displaying it: '' @ msg
                    | BodyObject ok err \<Rightarrow>
                        if ok then ''I've created a '' @ difficulty quiz @ '' '' @ topic quiz
                                   @ '' quiz with '' @ str_int num_questions
                                   @ '' questions. Let's start with question 1!''
                        else ''Created quiz but couldn't display it: ''
                             @ (case err of None \<Rightarrow> ''Unknown error'' | Some msg \<Rightarrow> msg)))))"

text \<open>
  \<open>create_quiz\<close>: the questions draw the identifiers 0 to 3, the quiz the next one and
  the history entry (under \<open>created_at\<close>) the one after. The quiz is assigned to
  \<open>userdata.current_quiz\<close> first; then \<open>userdata.quiz_history\<close> is read for the
  append, outside any \<open>try\<close>, so a missing attribute is raised to the caller with the
  quiz already stored. Only then is the frontend contacted.
\<close>

definition create_quiz ::
  "env \<Rightarrow> string \<Rightarrow> int \<Rightarrow> string \<Rightarrow> UserData \<Rightarrow> (py_error + string) \<times> UserData" where
  "create_quiz e topic0 num_questions0 difficulty0 userdata =
     (let num_questions = max 1 (min 10 num_questions0);
          difficulty1 = (if lower difficulty0 \<in> set [''easy'', ''medium'', ''hard'']
                         then lower difficulty0 else ''medium'');
          questions1 = generate_quiz_questions (uuid4 e) topic0 num_questions difficulty1;
          quiz = \<lparr>quiz_id = uuid4 e 4, topic = topic0, difficulty = difficulty1,
                  questions = questions1, current_question_index = 0, score = 0,
                  completed = False\<rparr>;
          userdata1 = userdata\<lparr>current_quiz := Present (Some quiz)\<rparr>
      in (case quiz_history userdata1 of
            Absent \<Rightarrow> (Inl AttributeError, userdata1)
          | Present history \<Rightarrow>
              (Inr (create_quiz_reply e quiz num_questions),
               userdata1\<lparr>quiz_history := Present (history @
                  [\<lparr>hist_id = quiz_id quiz, hist_topic = topic0,
                    hist_difficulty = difficulty1, status = ''in_progress'',
                    created_at = uuid4 e 5, hist_score = None, percentage = None\<rparr>])\<rparr>)))"

text \<open>
  \<open>submit_answer\<close>: reading \<open>userdata.current_quiz\<close> raises when the attribute is
  missing. The current question is read before the \<open>try\<close> of any helper, so an index
  out of range is raised to the caller, before anything is written. Score, recorded
  answer, index and completion flag are written on the quiz object held by
  \<open>userdata.current_quiz\<close>, and only then is a helper called.
\<close>

definition submit_answer :: "env \<Rightarrow> string \<Rightarrow> UserData \<Rightarrow> (py_error + string) \<times> UserData" where
  "submit_answer e answer userdata =
     (case current_quiz userdata of
        Absent \<Rightarrow> (Inl AttributeError, userdata)
      | Present None \<Rightarrow>
          (Inr ''There's no active quiz. Create a quiz first using create_quiz.'', userdata)
      | Present (Some quiz) \<Rightarrow>
          if completed quiz
          then (Inr (''This quiz is already completed. Your score was '' @ score_text quiz @ ''.''),
                userdata)
          else (case py_index (questions quiz) (current_question_index quiz) of
            Inl err \<Rightarrow> (Inl err, userdata)
          | Inr pos \<Rightarrow>
              (let current_question = questions quiz ! pos;
                   correct = (upper (unicode_upper e) answer =
                              upper (unicode_upper e) (correct_answer current_question));
                   quiz1 = (if correct then quiz\<lparr>score := score quiz + 1\<rparr> else quiz);
                   quiz2 = quiz1\<lparr>questions := (questions quiz1)
                             [pos := current_question
                                \<lparr>user_answer := Some (upper (unicode_upper e) answer),
                                 is_correct := Some correct\<rparr>]\<rparr>;
                   quiz3 = quiz2\<lparr>current_question_index := current_question_index quiz2 + 1\<rparr>
               in if current_question_index quiz3 \<ge> int (length (questions quiz3))
                  then (let quiz4 = quiz3\<lparr>completed := True\<rparr>
                        in complete_quiz e (userdata\<lparr>current_quiz := Present (Some quiz4)\<rparr>) quiz4)
                  else (Inr (show_next_question e quiz3),
                        userdata\<lparr>current_quiz := Present (Some quiz3)\<rparr>))))"

definition skip_question :: "env \<Rightarrow> UserData \<Rightarrow> (py_error + string) \<times> UserData" where
  "skip_question e userdata =
     (case current_quiz userdata of
        Absent \<Rightarrow> (Inl AttributeError, userdata)
      | Present None \<Rightarrow> (Inr ''There's no active quiz.'', userdata)
      | Present (Some quiz) \<Rightarrow>
          if completed quiz then (Inr ''Quiz is already completed.'', userdata)
          else (case py_index (questions quiz) (current_question_index quiz) of
            Inl err \<Rightarrow> (Inl err, userdata)
          | Inr pos \<Rightarrow>
              (let current_question = questions quiz ! pos;
                   quiz2 = quiz\<lparr>questions := (questions quiz)
                             [pos := current_question\<lparr>user_answer := Some ''SKIPPED'',
                                                      is_correct := Some False\<rparr>]\<rparr>;
                   quiz3 = quiz2\<lparr>current_question_index := current_question_index quiz2 + 1\<rparr>
               in if current_question_index quiz3 \<ge> int (length (questions quiz3))
                  then (let quiz4 = quiz3\<lparr>completed := True\<rparr>
                        in complete_quiz e (userdata\<lparr>current_quiz := Present (Some quiz4)\<rparr>) quiz4)
                  else (Inr (show_next_question e quiz3),
                        userdata\<lparr>current_quiz := Present (Some quiz3)\<rparr>))))"

text \<open>
  \<open>get_quiz_status\<close> reads the state only; the attributes are read and the percentage
  is computed outside any \<open>try\<close>.
\<close>

definition get_quiz_status :: "env \<Rightarrow> UserData \<Rightarrow> (py_error + string) \<times> UserData" where
  "get_quiz_status e userdata =
     (case current_quiz userdata of
        Absent \<Rightarrow> (Inl AttributeError, userdata)
      | Present None \<Rightarrow>
          (case quiz_history userdata of
             Absent \<Rightarrow> (Inl AttributeError, userdata)
           | Present history \<Rightarrow>
               if history \<noteq> []
               then (let last_quiz = last history
                     in (Inr (''No active quiz. Last quiz was on '' @ hist_topic last_quiz
                              @ '' ('' @ status last_quiz @ '').''), userdata))
               else (Inr ''No quiz has been created yet. Use create_quiz to start one.'',
                     userdata))
      | Present (Some quiz) \<Rightarrow>
          if completed quiz
          then (case percentage_of (score quiz) (length (questions quiz)) of
                  Inl err \<Rightarrow> (Inl err, userdata)
                | Inr pct \<Rightarrow>
                    (Inr (''Quiz completed! Final score: '' @ score_text quiz
                          @ '' ('' @ str_int pct @ ''%)''), userdata))
          else (Inr (''Currently on question '' @ str_int (current_question_index quiz + 1)
                     @ '' of '' @ str_int (int (length (questions quiz)))
                     @ ''. Score so far: '' @ str_int (score quiz) @ ''/''
                     @ str_int (current_question_index quiz) @ '' answered correctly.''),
                userdata))"

text \<open>
  \<open>show_quiz_results\<close>: the rows, the percentage and the request are built inside the
  \<open>try\<close>, whose handler answers every fault, a timeout included, with the same sentence.
\<close>

definition result_rows :: "QuizQuestion list \<Rightarrow> result_row list" where
  "result_rows qs =
     map (\<lambda>(i, q). ResultRow (int i + 1) (question_text q) (correct_answer q)
                      (case user_answer q of
                         None \<Rightarrow> ''Not answered''
                       | Some a \<Rightarrow> if a = [] then ''Not answered'' else a)
                      (is_correct q))
         (enumerate 0 qs)"

definition show_quiz_results :: "env \<Rightarrow> UserData \<Rightarrow> (py_error + string) \<times> UserData" where
  "show_quiz_results e userdata =
     (case current_quiz userdata of
        Absent \<Rightarrow> (Inl AttributeError, userdata)
      | Present None \<Rightarrow> (Inr ''No quiz to show results for.'', userdata)
      | Present (Some quiz) \<Rightarrow>
          if \<not> completed quiz then (Inr ''Quiz is not completed yet. Finish the quiz first.'', userdata)
          else (case room e of
            None \<Rightarrow> (Inr ''Quiz completed but couldn't display results'', userdata)
          | Some participants \<Rightarrow>
              if participants = [] then (Inr ''No participants to send results to'', userdata)
              else (case first_participant participants of
                None \<Rightarrow> (Inr ''Couldn't get participant'', userdata)
              | Some participant \<Rightarrow>
                  (case percentage_of (score quiz) (length (questions quiz)) of
                     Inl err \<Rightarrow> (Inr (''Quiz completed with score '' @ score_text quiz), userdata)
                   | Inr pct \<Rightarrow>
                       (let payload = ShowResults (quiz_id quiz) (score quiz)
                                        (int (length (questions quiz))) pct
                                        (result_rows (questions quiz))
                        in (case rpc e participant payload of
                              BodyObject ok err \<Rightarrow>
                                if ok
                                then (Inr (''Here are your detailed results: '' @ score_text quiz
                                           @ '' correct ('' @ str_int pct @ ''%)''), userdata)
                                else (Inr (''Results: '' @ score_text quiz), userdata)
                            | _ \<Rightarrow> (Inr (''Quiz completed with score '' @ score_text quiz), userdata)))))))"

subsection \<open>Sessions\<close>

text \<open>
  A session is a sequence of tool calls, each in the environment it meets, starting from
  the session state as it is created. A call that raises leaves the state it had written
  so far.
\<close>

datatype tool_call =
  CreateQuiz string int string
| SubmitAnswer string
| SkipQuestion
| GetQuizStatus
| ShowQuizResults

definition call_tool :: "env \<Rightarrow> tool_call \<Rightarrow> UserData \<Rightarrow> (py_error + string) \<times> UserData" where
  "call_tool e c userdata =
     (case c of
        CreateQuiz t n d \<Rightarrow> create_quiz e t n d userdata
      | SubmitAnswer a \<Rightarrow> submit_answer e a userdata
      | SkipQuestion \<Rightarrow> skip_question e userdata
      | GetQuizStatus \<Rightarrow> get_quiz_status e userdata
      | ShowQuizResults \<Rightarrow> show_quiz_results e userdata)"

fun run_session :: "(env \<times> tool_call) list \<Rightarrow> UserData \<Rightarrow> UserData" where
  "run_session [] userdata = userdata"
| "run_session ((e, c) # cs) userdata = run_session cs (snd (call_tool e c userdata))"

subsection \<open>Well-formed quizzes\<close>

text \<open>
  The shape that every quiz of a running session has: between one and ten questions, an
  index between zero and the number of questions that reaches it exactly when the quiz is
  completed, and a score between zero and the number of questions answered.
\<close>

definition quiz_wf :: "Quiz \<Rightarrow> bool" where
  "quiz_wf q \<longleftrightarrow>
     1 \<le> length (questions q) \<and> length (questions q) \<le> 10 \<and>
     0 \<le> current_question_index q \<and>
     current_question_index q \<le> int (length (questions q)) \<and>
     (completed q \<longleftrightarrow> current_question_index q = int (length (questions q))) \<and>
     0 \<le> score q \<and> score q \<le> current_question_index q"

text \<open>The two calls that answer the current question.\<close>

definition is_move :: "tool_call \<Rightarrow> bool" where
  "is_move c = (case c of SubmitAnswer a \<Rightarrow> True | SkipQuestion \<Rightarrow> True | _ \<Rightarrow> False)"

text \<open>
  What holds of the session state after any sequence of tool calls: the quiz held by
  \<open>current_quiz\<close>, if there is one, is well formed.
\<close>

definition session_inv :: "UserData \<Rightarrow> bool" where
  "session_inv userdata \<longleftrightarrow>
     (case current_quiz userdata of
        Present (Some q) \<Rightarrow> quiz_wf q
      | _ \<Rightarrow> True)"

text \<open>What a question asks: its text, its options and its correct answer.\<close>

definition question_content :: "QuizQuestion \<Rightarrow> string \<times> string list \<times> string" where
  "question_content q = (question_text q, options q, correct_answer q)"

subsection \<open>Sample environments and states\<close>

text \<open>
  Identifiers id-0, id-1, ...; an upper-casing outside ASCII that knows the sharp s
  (bytes C3 9F, becoming SS) and leaves every other string as it is.
\<close>

definition sample_uuid :: "nat \<Rightarrow> string" where
  "sample_uuid k = ''id-'' @ str_nat k"

definition sample_upper :: "string \<Rightarrow> string" where
  "sample_upper s = (if s = [CHR 0xC3, CHR 0x9F] then ''SS'' else s)"

text \<open>
  A session without a room, a room whose peer never answers in time, and a room whose
  peer acknowledges every request.
\<close>

definition no_room_env :: env where
  "no_room_env = \<lparr>room = None, rpc = (\<lambda>p req. RpcTimeout), uuid4 = sample_uuid,
                   unicode_upper = sample_upper\<rparr>"

definition timeout_env :: env where
  "timeout_env = \<lparr>room = Some [''student''], rpc = (\<lambda>p req. RpcTimeout),
                   uuid4 = sample_uuid, unicode_upper = sample_upper\<rparr>"

definition ok_env :: env where
  "ok_env = \<lparr>room = Some [''student''], rpc = (\<lambda>p req. BodyObject True None),
              uuid4 = sample_uuid, unicode_upper = sample_upper\<rparr>"

text \<open>A room without a remote participant, a failing transport, and a body that is not JSON.\<close>

definition no_peer_env :: env where
  "no_peer_env = \<lparr>room = Some [], rpc = (\<lambda>p req. BodyObject True None),
                   uuid4 = sample_uuid, unicode_upper = sample_upper\<rparr>"

definition transport_failure_env :: env where
  "transport_failure_env = \<lparr>room = Some [''student''],
                             rpc = (\<lambda>p req. RpcRaised ''connection lost''),
                             uuid4 = sample_uuid, unicode_upper = sample_upper\<rparr>"

definition bad_body_env :: env where
  "bad_body_env = \<lparr>room = Some [''student''],
                    rpc = (\<lambda>p req. BodyNotJson ''Expecting value: line 1 column 1 (char 0)''),
                    uuid4 = sample_uuid, unicode_upper = sample_upper\<rparr>"

text \<open>
  A session object to which an empty \<open>quiz_history\<close> list has been attached, and a
  fresh quiz of three questions.
\<close>

definition userdata_with_history :: UserData where
  "userdata_with_history = \<lparr>current_quiz = Absent, quiz_history = Present []\<rparr>"

definition three_question_quiz :: Quiz where
  "three_question_quiz =
     \<lparr>quiz_id = ''id-4'', topic = ''mixed'', difficulty = ''medium'',
      questions = algebra_questions sample_uuid @ geometry_questions sample_uuid,
      current_question_index = 0, score = 0, completed = False\<rparr>"

text \<open>
  A session object that has a history list and whose quiz of three questions stands at
  its last question with one correct answer so far.
\<close>

definition last_question_session :: UserData where
  "last_question_session =
     \<lparr>current_quiz = Present (Some (three_question_quiz\<lparr>current_question_index := 2, score := 1\<rparr>)),
      quiz_history = Present
        [\<lparr>hist_id = ''id-4'', hist_topic = ''mixed'', hist_difficulty = ''medium'',
          status = ''in_progress'', created_at = ''id-5'', hist_score = None,
          percentage = None\<rparr>]\<rparr>"

subsection \<open>What a move computes\<close>

text \<open>
  Used to state the results of \<open>submit_answer\<close> and \<open>skip_question\<close> on a well-formed,
  not completed quiz: the quiz with the answer recorded for the current question, and
  the outcome and session state that follow from it.
\<close>

definition record_answer :: "Quiz \<Rightarrow> string \<Rightarrow> bool \<Rightarrow> Quiz" where
  "record_answer q ans ok =
     q\<lparr>score := score q + (if ok then 1 else 0),
       questions := (questions q)
         [nat (current_question_index q) :=
            (questions q ! nat (current_question_index q))
              \<lparr>user_answer := Some ans, is_correct := Some ok\<rparr>],
       current_question_index := current_question_index q + 1,
       completed := (current_question_index q + 1 = int (length (questions q)))\<rparr>"

definition final_percentage :: "Quiz \<Rightarrow> int" where
  "final_percentage q = score q * 100 div int (length (questions q))"

definition after_move :: "env \<Rightarrow> UserData \<Rightarrow> Quiz \<Rightarrow> (py_error + string) \<times> UserData" where
  "after_move e ud q' =
     (if completed q'
      then (case quiz_history ud of
              Absent \<Rightarrow> (Inl AttributeError, ud\<lparr>current_quiz := Present (Some q')\<rparr>)
            | Present history \<Rightarrow>
                (Inr (complete_quiz_reply e q' (final_percentage q')),
                 ud\<lparr>current_quiz := Present (Some q'),
                     quiz_history :=
                       Present (map (mark_completed q' (final_percentage q')) history)\<rparr>))
      else (Inr (show_next_question e q'), ud\<lparr>current_quiz := Present (Some q')\<rparr>))"

subsection \<open>Outcomes of the exchange with the frontend\<close>

text \<open>
  A fault of the exchange is a timeout, a raised transport fault, or a body that is not
  JSON or not an object. The frontend has failed for a call when there is no room, no
  remote participant, or every request to the first participant ends in a fault; it
  acknowledges when the first participant answers every request with a true \<open>ok\<close>.
\<close>

definition rpc_fault :: "rpc_result \<Rightarrow> bool" where
  "rpc_fault r = (case r of BodyObject ok err \<Rightarrow> False | _ \<Rightarrow> True)"

definition frontend_failed :: "env \<Rightarrow> bool" where
  "frontend_failed e \<longleftrightarrow>
     (case room e of
        None \<Rightarrow> True
      | Some ps \<Rightarrow>
          (case first_participant ps of
             None \<Rightarrow> True
           | Some p \<Rightarrow> \<forall>req. rpc_fault (rpc e p req)))"

definition frontend_acknowledges :: "env \<Rightarrow> bool" where
  "frontend_acknowledges e \<longleftrightarrow>
     (case room e of
        None \<Rightarrow> False
      | Some ps \<Rightarrow>
          (case first_participant ps of
             None \<Rightarrow> False
           | Some p \<Rightarrow> \<forall>req. \<exists>err. rpc e p req = BodyObject True err))"

section \<open>Properties\<close>

subsection \<open>Catalog, percentages and indexing\<close>

lemma catalog_entry_cases:
  "(case map_of (sample_questions uuid) k of Some qs \<Rightarrow> qs | None \<Rightarrow> algebra_questions uuid)
     \<in> {algebra_questions uuid, geometry_questions uuid, fractions_questions uuid}"
  by (simp add: sample_questions_def)

lemma length_algebra_questions [simp]: "length (algebra_questions uuid) = 2"
  by (simp add: algebra_questions_def)

lemma length_geometry_questions [simp]: "length (geometry_questions uuid) = 1"
  by (simp add: geometry_questions_def)

lemma length_fractions_questions [simp]: "length (fractions_questions uuid) = 1"
  by (simp add: fractions_questions_def)

lemma length_generate_quiz_questions:
  assumes "1 \<le> n"
  shows "1 \<le> length (generate_quiz_questions uuid t n d) \<and>
         length (generate_quiz_questions uuid t n d) \<le> 2"
  using assms catalog_entry_cases [of uuid "lower t"]
  by (auto simp: generate_quiz_questions_def py_slice_to_def)

lemma percentage_of_floor:
  assumes "0 \<le> s" and "0 < n"
  shows "percentage_of s n = Inr (s * 100 div int n)"
proof -
  have "rat_of_int s / rat_of_int (int n) * 100 = rat_of_int (s * 100) / rat_of_int (int n)"
    by simp
  moreover have "0 \<le> rat_of_int (s * 100) / rat_of_int (int n)"
    using assms by simp
  moreover have "\<lfloor>rat_of_int (s * 100) / rat_of_int (int n)\<rfloor> = s * 100 div int n"
    by (rule floor_divide_of_int_eq)
  ultimately show ?thesis
    using assms by (simp add: percentage_of_def py_int_trunc_def)
qed

lemma py_index_in_range:
  assumes "0 \<le> i" and "i < int (length xs)"
  shows "py_index xs i = Inr (nat i)"
  using assms by (simp add: py_index_def)


subsection \<open>The transitions and the session invariant\<close>

lemma complete_quiz_wf:
  assumes "0 \<le> score q" and "1 \<le> length (questions q)"
  shows "complete_quiz e ud q =
           (case quiz_history ud of
              Absent \<Rightarrow> (Inl AttributeError, ud)
            | Present history \<Rightarrow>
                (Inr (complete_quiz_reply e q (score q * 100 div int (length (questions q)))),
                 ud\<lparr>quiz_history :=
                      Present (map (mark_completed q (score q * 100 div int (length (questions q))))
                                 history)\<rparr>))"
proof -
  have "0 < length (questions q)"
    using assms(2) by (cases "questions q") simp_all
  then show ?thesis
    by (simp add: complete_quiz_def percentage_of_floor [OF assms(1)])
qed

lemma submit_answer_active:
  assumes "current_quiz ud = Present (Some q)" and "\<not> completed q"
    and "0 \<le> current_question_index q"
    and "current_question_index q < int (length (questions q))"
  shows "submit_answer e a ud =
     (let pos = nat (current_question_index q);
          cq = questions q ! pos;
          correct = (upper (unicode_upper e) a = upper (unicode_upper e) (correct_answer cq));
          q3 = q\<lparr>score := score q + (if correct then 1 else 0),
                 questions := (questions q)
                   [pos := cq\<lparr>user_answer := Some (upper (unicode_upper e) a),
                              is_correct := Some correct\<rparr>],
                 current_question_index := current_question_index q + 1\<rparr>
      in if current_question_index q + 1 \<ge> int (length (questions q))
         then complete_quiz e (ud\<lparr>current_quiz := Present (Some (q3\<lparr>completed := True\<rparr>))\<rparr>)
                (q3\<lparr>completed := True\<rparr>)
         else (Inr (show_next_question e q3), ud\<lparr>current_quiz := Present (Some q3)\<rparr>))"
  using assms by (simp add: submit_answer_def py_index_in_range Let_def)

lemma skip_question_active:
  assumes "current_quiz ud = Present (Some q)" and "\<not> completed q"
    and "0 \<le> current_question_index q"
    and "current_question_index q < int (length (questions q))"
  shows "skip_question e ud =
     (let pos = nat (current_question_index q);
          cq = questions q ! pos;
          q3 = q\<lparr>questions := (questions q)
                   [pos := cq\<lparr>user_answer := Some ''SKIPPED'', is_correct := Some False\<rparr>],
                 current_question_index := current_question_index q + 1\<rparr>
      in if current_question_index q + 1 \<ge> int (length (questions q))
         then complete_quiz e (ud\<lparr>current_quiz := Present (Some (q3\<lparr>completed := True\<rparr>))\<rparr>)
                (q3\<lparr>completed := True\<rparr>)
         else (Inr (show_next_question e q3), ud\<lparr>current_quiz := Present (Some q3)\<rparr>))"
  using assms by (simp add: skip_question_def py_index_in_range Let_def)

lemma completed_update_idle:
  assumes "\<not> completed x"
  shows "x\<lparr>completed := False\<rparr> = x"
  using assms by (cases x) simp

lemma submit_answer_result:
  assumes "current_quiz ud = Present (Some q)" and "quiz_wf q" and "\<not> completed q"
  shows "submit_answer e a ud =
           after_move e ud (record_answer q (upper (unicode_upper e) a)
             (upper (unicode_upper e) a =
              upper (unicode_upper e)
                (correct_answer (questions q ! nat (current_question_index q)))))"
proof -
  have r: "0 \<le> current_question_index q" "current_question_index q < int (length (questions q))"
    "0 \<le> score q" "1 \<le> length (questions q)"
    using assms(2,3) by (auto simp: quiz_wf_def)
  show ?thesis
    using r assms(3)
    by (simp add: submit_answer_active [OF assms(1,3) r(1,2)] Let_def complete_quiz_wf
          after_move_def record_answer_def final_percentage_def completed_update_idle
          split: attr.splits)
qed

lemma skip_question_result:
  assumes "current_quiz ud = Present (Some q)" and "quiz_wf q" and "\<not> completed q"
  shows "skip_question e ud = after_move e ud (record_answer q ''SKIPPED'' False)"
proof -
  have r: "0 \<le> current_question_index q" "current_question_index q < int (length (questions q))"
    "0 \<le> score q" "1 \<le> length (questions q)"
    using assms(2,3) by (auto simp: quiz_wf_def)
  show ?thesis
    using r assms(3)
    by (simp add: skip_question_active [OF assms(1,3) r(1,2)] Let_def complete_quiz_wf
          after_move_def record_answer_def final_percentage_def completed_update_idle
          split: attr.splits)
qed

lemma move_result:
  assumes "current_quiz ud = Present (Some q)" and "quiz_wf q" and "\<not> completed q"
    and "is_move c"
  shows "\<exists>ans ok. call_tool e c ud = after_move e ud (record_answer q ans ok)"
proof (cases c)
  case (SubmitAnswer a)
  then show ?thesis
    using submit_answer_result [OF assms(1-3), of e a] by (auto simp: call_tool_def)
next
  case SkipQuestion
  then show ?thesis
    using skip_question_result [OF assms(1-3), of e] by (auto simp: call_tool_def)
qed (use assms(4) in \<open>simp_all add: is_move_def\<close>)

lemma record_answer_fields:
  "length (questions (record_answer q ans ok)) = length (questions q)"
  "current_question_index (record_answer q ans ok) = current_question_index q + 1"
  "completed (record_answer q ans ok) =
     (current_question_index q + 1 = int (length (questions q)))"
  "score (record_answer q ans ok) = score q + (if ok then 1 else 0)"
  "quiz_id (record_answer q ans ok) = quiz_id q"
  by (simp_all add: record_answer_def)

lemma record_answer_wf:
  assumes "quiz_wf q" and "\<not> completed q"
  shows "quiz_wf (record_answer q ans ok)"
  using assms by (auto simp: quiz_wf_def record_answer_def)

lemma after_move_current: "current_quiz (snd (after_move e ud q')) = Present (Some q')"
  by (simp add: after_move_def split: attr.splits)

lemma snd_after_move: "snd (after_move e ud q') = snd (after_move e' ud q')"
  by (simp add: after_move_def split: attr.splits)

lemma after_move_history_absent:
  assumes "quiz_history ud = Absent"
  shows "quiz_history (snd (after_move e ud q')) = Absent"
  using assms by (simp add: after_move_def)

lemma clamped_questions_bounds:
  "generate_quiz_questions uuid t (max 1 (min 10 n)) d \<noteq> []"
  "length (generate_quiz_questions uuid t (max 1 (min 10 n)) d) \<le> 10"
  using length_generate_quiz_questions [of "max 1 (min 10 n)" uuid t d]
  by auto

lemma create_quiz_current:
  "current_quiz (snd (create_quiz e t n d ud)) =
     Present (Some \<lparr>quiz_id = uuid4 e 4, topic = t,
                     difficulty = (if lower d \<in> set [''easy'', ''medium'', ''hard'']
                                   then lower d else ''medium''),
                     questions = generate_quiz_questions (uuid4 e) t (max 1 (min 10 n)) ''medium'',
                     current_question_index = 0, score = 0, completed = False\<rparr>)"
  by (simp add: create_quiz_def Let_def generate_quiz_questions_def split: attr.splits)

lemma create_quiz_inv: "session_inv (snd (create_quiz e t n d ud))"
  by (simp add: session_inv_def create_quiz_current quiz_wf_def clamped_questions_bounds
        Suc_le_eq)

lemma move_inv:
  assumes "session_inv ud" and "is_move c"
  shows "session_inv (snd (call_tool e c ud))"
proof (cases "\<exists>q. current_quiz ud = Present (Some q) \<and> \<not> completed q")
  case True
  then obtain q where q: "current_quiz ud = Present (Some q)" "\<not> completed q"
    by blast
  have wf: "quiz_wf q"
    using assms(1) q(1) by (simp add: session_inv_def)
  obtain ans ok where "call_tool e c ud = after_move e ud (record_answer q ans ok)"
    using move_result [OF q(1) wf q(2) assms(2)] by blast
  then show ?thesis
    using record_answer_wf [OF wf q(2)] by (simp add: session_inv_def after_move_current)
next
  case False
  then have "snd (call_tool e c ud) = ud"
    using assms(2)
    by (cases c)
       (auto simp: is_move_def call_tool_def submit_answer_def skip_question_def
          split: attr.splits option.splits)
  then show ?thesis
    using assms(1) by simp
qed

lemma get_quiz_status_state: "snd (get_quiz_status e ud) = ud"
  by (simp add: get_quiz_status_def Let_def split: attr.splits option.splits sum.splits)

lemma show_quiz_results_state: "snd (show_quiz_results e ud) = ud"
  by (simp add: show_quiz_results_def Let_def
        split: attr.splits option.splits sum.splits rpc_result.splits)

lemma call_tool_inv:
  assumes "session_inv ud"
  shows "session_inv (snd (call_tool e c ud))"
proof (cases "is_move c")
  case True
  then show ?thesis by (rule move_inv [OF assms])
next
  case False
  then show ?thesis
    using assms
    by (cases c)
       (simp_all add: is_move_def call_tool_def create_quiz_inv get_quiz_status_state
          show_quiz_results_state)
qed

lemma run_session_inv:
  assumes "session_inv ud"
  shows "session_inv (run_session cs ud)"
  using assms
proof (induction cs arbitrary: ud)
  case Nil
  then show ?case by simp
next
  case (Cons x cs)
  obtain e c where x: "x = (e, c)" by (cases x)
  show ?case
    using Cons.IH [OF call_tool_inv [OF Cons.prems, of e c]] by (simp add: x)
qed

lemma initial_userdata_inv: "session_inv initial_userdata"
  by (simp add: session_inv_def initial_userdata_def)

lemma reachable_inv: "session_inv (run_session cs initial_userdata)"
  by (rule run_session_inv [OF initial_userdata_inv])

lemma reachable_active_quiz:
  assumes "current_quiz (run_session cs initial_userdata) = Present (Some q)"
  shows "quiz_wf q"
  using reachable_inv [of cs] assms by (simp add: session_inv_def)

lemma run_session_append: "run_session (cs @ ds) ud = run_session ds (run_session cs ud)"
  by (induction cs arbitrary: ud) auto

subsection \<open>Question generation\<close>

lemma catalog_entry_content:
  "map question_content
     (case map_of (sample_questions u1) k of Some qs \<Rightarrow> qs | None \<Rightarrow> algebra_questions u1) =
   map question_content
     (case map_of (sample_questions u2) k of Some qs \<Rightarrow> qs | None \<Rightarrow> algebra_questions u2)"
  by (simp add: sample_questions_def algebra_questions_def geometry_questions_def
        fractions_questions_def new_question_def question_content_def)

lemma map_py_slice_to: "map f (py_slice_to xs n) = py_slice_to (map f xs) n"
  by (simp add: py_slice_to_def take_map)

lemma generate_quiz_questions_content:
  "map question_content (generate_quiz_questions u1 t n d1) =
   map question_content (generate_quiz_questions u2 t n d2)"
  by (simp add: generate_quiz_questions_def map_py_slice_to catalog_entry_content [of u1 _ u2])

text \<open>
  C10: the question generator never reads its difficulty argument. For every topic and
  count, two difficulty strings give the same question list (and, whatever the fresh
  identifiers, the same texts, options and correct answers); the quizzes that
  \<open>create_quiz\<close> stores for them agree in every field but the difficulty label, and so
  do the history entries, where a history exists.
\<close>

theorem difficulty_does_not_reach_questions:
  "generate_quiz_questions uuid t n d1 = generate_quiz_questions uuid t n d2 \<and>
   map question_content (generate_quiz_questions u1 t n d1) =
     map question_content (generate_quiz_questions u2 t n d2) \<and>
   (\<exists>q1 q2. current_quiz (snd (create_quiz e t n d1 ud)) = Present (Some q1) \<and>
            current_quiz (snd (create_quiz e t n d2 ud)) = Present (Some q2) \<and>
            questions q1 = questions q2 \<and>
            q1\<lparr>difficulty := x\<rparr> = q2\<lparr>difficulty := x\<rparr>) \<and>
   (case quiz_history (snd (create_quiz e t n d1 ud)) of
      Absent \<Rightarrow> []
    | Present h \<Rightarrow> map (\<lambda>h. h\<lparr>hist_difficulty := x\<rparr>) h) =
   (case quiz_history (snd (create_quiz e t n d2 ud)) of
      Absent \<Rightarrow> []
    | Present h \<Rightarrow> map (\<lambda>h. h\<lparr>hist_difficulty := x\<rparr>) h)"
proof -
  have g: "generate_quiz_questions u t n a = generate_quiz_questions u t n b" for u a b
    by (simp add: generate_quiz_questions_def)
  have q: "\<exists>q1 q2. current_quiz (snd (create_quiz e t n d1 ud)) = Present (Some q1) \<and>
            current_quiz (snd (create_quiz e t n d2 ud)) = Present (Some q2) \<and>
            questions q1 = questions q2 \<and>
            q1\<lparr>difficulty := x\<rparr> = q2\<lparr>difficulty := x\<rparr>"
    by (simp add: create_quiz_current)
  have h: "(case quiz_history (snd (create_quiz e t n d1 ud)) of
      Absent \<Rightarrow> []
    | Present h \<Rightarrow> map (\<lambda>h. h\<lparr>hist_difficulty := x\<rparr>) h) =
   (case quiz_history (snd (create_quiz e t n d2 ud)) of
      Absent \<Rightarrow> []
    | Present h \<Rightarrow> map (\<lambda>h. h\<lparr>hist_difficulty := x\<rparr>) h)"
    by (simp add: create_quiz_def Let_def split: attr.splits)
  show ?thesis
    using g [of uuid d1 d2] generate_quiz_questions_content [of u1 t n d1 u2 d2] q h
    by (intro conjI)
qed

theorem difficulty_does_not_reach_questions_example:
  "generate_quiz_questions (uuid4 no_room_env) ''geometry'' 3 ''easy'' =
     generate_quiz_questions (uuid4 no_room_env) ''geometry'' 3 ''HARD'' \<and>
   map question_text (generate_quiz_questions (uuid4 no_room_env) ''geometry'' 3 ''HARD'') =
     [''What is the area of a rectangle with length 8 and width 5?'']"
proof
  show "generate_quiz_questions (uuid4 no_room_env) ''geometry'' 3 ''easy'' =
     generate_quiz_questions (uuid4 no_room_env) ''geometry'' 3 ''HARD''"
    using difficulty_does_not_reach_questions
      [of "uuid4 no_room_env" "''geometry''" 3 "''easy''" "''HARD''"]
    by (rule conjunct1)
  show "map question_text (generate_quiz_questions (uuid4 no_room_env) ''geometry'' 3 ''HARD'') =
     [''What is the area of a rectangle with length 8 and width 5?'']"
    by code_simp
qed

lemma catalog_entry_algebra:
  "map_of (sample_questions uuid) ''algebra'' = Some (algebra_questions uuid)"
  by (simp add: sample_questions_def)

lemma catalog_entry_unknown:
  assumes "k \<noteq> ''algebra''" and "k \<noteq> ''geometry''" and "k \<noteq> ''fractions''"
  shows "map_of (sample_questions uuid) k = None"
  using assms by (simp add: sample_questions_def)

lemma create_quiz_reply_no_room:
  assumes "room e = None"
  shows "create_quiz_reply e q k =
           ''Created a '' @ str_int k @ ''-question quiz on '' @ topic q
           @ '', but couldn't display it''"
  using assms by (simp add: create_quiz_reply_def)

lemma create_quiz_reply_acknowledged:
  assumes "room e = Some (p # ps)" and "\<forall>req. rpc e p req = BodyObject True err"
    and "questions q \<noteq> []"
  shows "create_quiz_reply e q k =
           ''I've created a '' @ difficulty q @ '' '' @ topic q @ '' quiz with '' @ str_int k
           @ '' questions. Let's start with question 1!''"
proof -
  have "py_index (questions q) 0 = Inr 0"
    using assms(3) by (simp add: py_index_def)
  then show ?thesis
    using assms(1,2)
    by (simp add: create_quiz_reply_def first_participant_def start_quiz_payload_def Let_def)
qed

lemma create_quiz_with_history:
  assumes "quiz_history ud = Present h"
  shows "\<exists>q. current_quiz (snd (create_quiz e t n d ud)) = Present (Some q) \<and>
             fst (create_quiz e t n d ud) = Inr (create_quiz_reply e q (max 1 (min 10 n)))"
  using assms by (simp add: create_quiz_def Let_def)

text \<open>
  C3, as the code has it: \<open>create_quiz\<close> stores a quiz whose question list is the
  catalog entry of the lower-cased topic (the algebra entry when the topic is unknown;
  the lookup does not raise), truncated to the clamped count
  \<open>max 1 (min 10 num_questions)\<close>. The clamped count is the count that the reply
  reports, when the call gets as far as its reply. A catalog entry holds one or two
  questions, so the quiz has the smaller of the clamped count and the size of the entry:
  one question for an input of 1 or less, the whole entry (never ten questions) for an
  input of 10 or more, and exactly two questions for algebra with an input of 2 or more.
\<close>

theorem create_quiz_question_list:
  fixes e :: env and t d :: string and n :: int and ud :: UserData
  defines "entry \<equiv> (case map_of (sample_questions (uuid4 e)) (lower t) of
                       Some qs \<Rightarrow> qs | None \<Rightarrow> algebra_questions (uuid4 e))"
  shows "\<exists>q. current_quiz (snd (create_quiz e t n d ud)) = Present (Some q) \<and>
             topic q = t \<and>
             questions q = take (nat (max 1 (min 10 n))) entry \<and>
             length (questions q) = min (nat (max 1 (min 10 n))) (length entry) \<and>
             1 \<le> length (questions q) \<and> length (questions q) \<le> 2 \<and>
             (lower t \<noteq> ''algebra'' \<and> lower t \<noteq> ''geometry'' \<and> lower t \<noteq> ''fractions''
                \<longrightarrow> entry = algebra_questions (uuid4 e)) \<and>
             (n \<le> 1 \<longrightarrow> length (questions q) = 1) \<and>
             (10 \<le> n \<longrightarrow> questions q = entry) \<and>
             (lower t = ''algebra'' \<and> 2 \<le> n \<longrightarrow> length (questions q) = 2) \<and>
             (quiz_history ud \<noteq> Absent \<and> room e = None \<longrightarrow>
                fst (create_quiz e t n d ud) =
                  Inr (''Created a '' @ str_int (max 1 (min 10 n)) @ ''-question quiz on '' @ t
                       @ '', but couldn't display it'')) \<and>
             (\<forall>p ps err.
                quiz_history ud \<noteq> Absent \<and> room e = Some (p # ps) \<and>
                (\<forall>req. rpc e p req = BodyObject True err) \<longrightarrow>
                fst (create_quiz e t n d ud) =
                  Inr (''I've created a '' @ difficulty q @ '' '' @ t @ '' quiz with ''
                       @ str_int (max 1 (min 10 n))
                       @ '' questions. Let's start with question 1!''))"
proof -
  let ?q = "\<lparr>quiz_id = uuid4 e 4, topic = t,
             difficulty = (if lower d \<in> set [''easy'', ''medium'', ''hard'']
                           then lower d else ''medium''),
             questions = generate_quiz_questions (uuid4 e) t (max 1 (min 10 n)) ''medium'',
             current_question_index = 0, score = 0, completed = False\<rparr>"
  have cur: "current_quiz (snd (create_quiz e t n d ud)) = Present (Some ?q)"
    by (rule create_quiz_current)
  have qs: "questions ?q = take (nat (max 1 (min 10 n))) entry"
    by (simp add: generate_quiz_questions_def py_slice_to_def entry_def)
  have l: "1 \<le> length entry" "length entry \<le> 2"
    using catalog_entry_cases [of "uuid4 e" "lower t"] by (auto simp: entry_def)
  have len: "length (questions ?q) = min (nat (max 1 (min 10 n))) (length entry)"
    unfolding qs by (simp add: min.commute)
  have b: "1 \<le> length (questions ?q)" "length (questions ?q) \<le> 2"
    unfolding qs using l by auto
  have u: "lower t \<noteq> ''algebra'' \<and> lower t \<noteq> ''geometry'' \<and> lower t \<noteq> ''fractions''
            \<longrightarrow> entry = algebra_questions (uuid4 e)"
    by (simp add: entry_def catalog_entry_unknown)
  have one: "n \<le> 1 \<longrightarrow> length (questions ?q) = 1"
    unfolding qs using l by auto
  have ten: "10 \<le> n \<longrightarrow> questions ?q = entry"
    unfolding qs using l by auto
  have alg: "lower t = ''algebra'' \<and> 2 \<le> n \<longrightarrow> length (questions ?q) = 2"
    unfolding qs by (auto simp: entry_def catalog_entry_algebra)
  have ne: "questions ?q \<noteq> []"
    using b(1) by (cases "questions ?q") simp_all
  have rep: "quiz_history ud \<noteq> Absent \<longrightarrow>
               fst (create_quiz e t n d ud) = Inr (create_quiz_reply e ?q (max 1 (min 10 n)))"
  proof
    assume "quiz_history ud \<noteq> Absent"
    then obtain h where "quiz_history ud = Present h"
      by (cases "quiz_history ud") simp_all
    then show "fst (create_quiz e t n d ud) = Inr (create_quiz_reply e ?q (max 1 (min 10 n)))"
      using create_quiz_with_history [of ud h e t n d] cur by auto
  qed
  have r1: "quiz_history ud \<noteq> Absent \<and> room e = None \<longrightarrow>
                fst (create_quiz e t n d ud) =
                  Inr (''Created a '' @ str_int (max 1 (min 10 n)) @ ''-question quiz on '' @ t
                       @ '', but couldn't display it'')"
    using rep create_quiz_reply_no_room [of e ?q "max 1 (min 10 n)"] by simp
  have r2: "\<forall>p ps err.
                quiz_history ud \<noteq> Absent \<and> room e = Some (p # ps) \<and>
                (\<forall>req. rpc e p req = BodyObject True err) \<longrightarrow>
                fst (create_quiz e t n d ud) =
                  Inr (''I've created a '' @ difficulty ?q @ '' '' @ t @ '' quiz with ''
                       @ str_int (max 1 (min 10 n))
                       @ '' questions. Let's start with question 1!'')"
  proof (intro allI impI)
    fix p ps err
    assume a: "quiz_history ud \<noteq> Absent \<and> room e = Some (p # ps) \<and>
                (\<forall>req. rpc e p req = BodyObject True err)"
    have "create_quiz_reply e ?q (max 1 (min 10 n)) =
            ''I've created a '' @ difficulty ?q @ '' '' @ topic ?q @ '' quiz with ''
            @ str_int (max 1 (min 10 n)) @ '' questions. Let's start with question 1!''"
      using a ne by (intro create_quiz_reply_acknowledged [of e p ps err]) simp_all
    then show "fst (create_quiz e t n d ud) =
                  Inr (''I've created a '' @ difficulty ?q @ '' '' @ t @ '' quiz with ''
                       @ str_int (max 1 (min 10 n))
                       @ '' questions. Let's start with question 1!'')"
      using rep a by simp
  qed
  have tp: "topic ?q = t"
    by simp
  show ?thesis
    using cur tp qs len b u one ten alg r1 r2 by (intro exI [of _ ?q] conjI)
qed

lemma str_int_examples:
  "str_int 0 = ''0''" "str_int 1 = ''1''" "str_int 2 = ''2''" "str_int 3 = ''3''"
  "str_int 10 = ''10''" "str_int 33 = ''33''" "str_int 50 = ''50''" "str_int 66 = ''66''"
  "str_int 100 = ''100''"
  by code_simp+

theorem create_quiz_question_list_example:
  "(\<exists>q. current_quiz (snd (create_quiz no_room_env ''algebra'' 37 ''medium''
            userdata_with_history)) = Present (Some q) \<and>
        length (questions q) = 2) \<and>
   fst (create_quiz no_room_env ''algebra'' 37 ''medium'' userdata_with_history) =
     Inr ''Created a 10-question quiz on algebra, but couldn't display it'' \<and>
   (\<exists>q. current_quiz (snd (create_quiz no_room_env ''Geometry'' 0 ''medium''
            userdata_with_history)) = Present (Some q) \<and>
        length (questions q) = 1)"
proof -
  have a: "lower ''algebra'' = ''algebra''" and g: "lower ''Geometry'' = ''geometry''"
    by code_simp+
  have h: "quiz_history userdata_with_history \<noteq> Absent" and r: "room no_room_env = None"
    by (simp_all add: userdata_with_history_def no_room_env_def)
  obtain q where q:
    "current_quiz (snd (create_quiz no_room_env ''algebra'' 37 ''medium''
       userdata_with_history)) = Present (Some q)"
    "lower ''algebra'' = ''algebra'' \<and> (2::int) \<le> 37 \<longrightarrow> length (questions q) = 2"
    "quiz_history userdata_with_history \<noteq> Absent \<and> room no_room_env = None \<longrightarrow>
       fst (create_quiz no_room_env ''algebra'' 37 ''medium'' userdata_with_history) =
         Inr (''Created a '' @ str_int (max 1 (min 10 37)) @ ''-question quiz on '' @ ''algebra''
              @ '', but couldn't display it'')"
    using create_quiz_question_list
      [of no_room_env "''algebra''" 37 "''medium''" userdata_with_history]
    by blast
  obtain q' where q':
    "current_quiz (snd (create_quiz no_room_env ''Geometry'' 0 ''medium''
       userdata_with_history)) = Present (Some q')"
    "(0::int) \<le> 1 \<longrightarrow> length (questions q') = 1"
    using create_quiz_question_list
      [of no_room_env "''Geometry''" 0 "''medium''" userdata_with_history]
    by blast
  have "fst (create_quiz no_room_env ''algebra'' 37 ''medium'' userdata_with_history) =
     Inr ''Created a 10-question quiz on algebra, but couldn't display it''"
    using q(3) h r by (simp add: str_int_examples)
  then show ?thesis
    using q(1,2) q' a by auto
qed

text \<open>
  C3 as stated fails: an input of 37 is clamped to 10, yet the algebra quiz it creates
  has two questions, not ten.
\<close>

theorem create_quiz_37_yields_two_questions:
  "current_quiz (snd (create_quiz no_room_env ''algebra'' 37 ''medium'' initial_userdata)) =
     Present (Some \<lparr>quiz_id = ''id-4'', topic = ''algebra'', difficulty = ''medium'',
                     questions = algebra_questions sample_uuid,
                     current_question_index = 0, score = 0, completed = False\<rparr>) \<and>
   length (algebra_questions sample_uuid) = 2 \<and>
   length (algebra_questions sample_uuid) \<noteq> 10"
  by code_simp

subsection \<open>Progress of a quiz\<close>

lemma move_step:
  assumes "session_inv ud" and "current_quiz ud = Present (Some q)" and "is_move c"
  shows "\<exists>q'. current_quiz (snd (call_tool e c ud)) = Present (Some q') \<and>
           current_question_index q' =
             (if completed q then current_question_index q else current_question_index q + 1) \<and>
           (completed q \<longrightarrow> completed q') \<and>
           length (questions q') = length (questions q) \<and>
           quiz_id q' = quiz_id q"
proof (cases "completed q")
  case True
  then show ?thesis
    using assms(2,3)
    by (cases c) (simp_all add: is_move_def call_tool_def submit_answer_def skip_question_def)
next
  case False
  have wf: "quiz_wf q"
    using assms(1,2) by (simp add: session_inv_def)
  obtain ans ok where "call_tool e c ud = after_move e ud (record_answer q ans ok)"
    using move_result [OF assms(2) wf False assms(3)] by blast
  then show ?thesis
    using False by (simp add: after_move_current record_answer_fields)
qed
lemma moves_run:
  assumes "session_inv ud" and "current_quiz ud = Present (Some q)" and "\<forall>x \<in> set ds. is_move (snd x)"
  shows "\<exists>q2. current_quiz (run_session ds ud) = Present (Some q2) \<and>
           current_question_index q \<le> current_question_index q2 \<and>
           (completed q \<longrightarrow> completed q2) \<and>
           length (questions q2) = length (questions q) \<and>
           quiz_id q2 = quiz_id q"
  using assms
proof (induction ds arbitrary: ud q)
  case Nil
  then show ?case by simp
next
  case (Cons x ds)
  obtain e c where x: "x = (e, c)" by (cases x)
  have mv: "is_move c" and rest: "\<forall>x \<in> set ds. is_move (snd x)"
    using Cons.prems(3) by (simp_all add: x)
  obtain q' where q': "current_quiz (snd (call_tool e c ud)) = Present (Some q')"
    "current_question_index q \<le> current_question_index q'"
    "completed q \<longrightarrow> completed q'"
    "length (questions q') = length (questions q)" "quiz_id q' = quiz_id q"
    using move_step [OF Cons.prems(1,2) mv, of e] by (auto split: if_splits)
  have inv': "session_inv (snd (call_tool e c ud))"
    by (rule call_tool_inv [OF Cons.prems(1)])
  obtain q2 where "current_quiz (run_session ds (snd (call_tool e c ud))) = Present (Some q2)"
    "current_question_index q' \<le> current_question_index q2"
    "completed q' \<longrightarrow> completed q2"
    "length (questions q2) = length (questions q')" "quiz_id q2 = quiz_id q'"
    using Cons.IH [OF inv' q'(1) rest] by blast
  then show ?case
    using q' by (auto simp: x)
qed

text \<open>
  C1: take the quiz that \<open>create_quiz\<close> stores (in any session state, with any
  arguments) and apply any sequence of \<open>submit_answer\<close> and \<open>skip_question\<close> calls,
  each in any environment. The quiz \<open>q\<close> then has an index between 0 and the number of
  questions, and is completed exactly when the index equals that number. One more submit
  or skip raises the index by exactly 1 when \<open>q\<close> is not completed (and leaves a
  completed quiz at its index, still completed); after any further such calls the index
  has not decreased and a completed quiz is still completed.
\<close>

theorem quiz_progress:
  assumes "\<forall>x \<in> set cs. is_move (snd x)" and "\<forall>x \<in> set ds. is_move (snd x)"
    and "is_move c"
  shows "\<exists>q q' q2.
           current_quiz (run_session cs (snd (create_quiz e0 t n d ud0))) = Present (Some q) \<and>
           0 \<le> current_question_index q \<and>
           current_question_index q \<le> int (length (questions q)) \<and>
           (completed q \<longleftrightarrow> current_question_index q = int (length (questions q))) \<and>
           current_quiz (snd (call_tool e c (run_session cs (snd (create_quiz e0 t n d ud0)))))
             = Present (Some q') \<and>
           (\<not> completed q \<longrightarrow> current_question_index q' = current_question_index q + 1) \<and>
           (completed q \<longrightarrow> current_question_index q' = current_question_index q \<and> completed q') \<and>
           current_quiz (run_session (cs @ ds) (snd (create_quiz e0 t n d ud0))) = Present (Some q2) \<and>
           current_question_index q \<le> current_question_index q2 \<and>
           (completed q \<longrightarrow> completed q2)"
proof -
  let ?start = "snd (create_quiz e0 t n d ud0)"
  let ?now = "run_session cs ?start"
  obtain q0 where q0: "current_quiz ?start = Present (Some q0)"
    using create_quiz_current [of e0 t n d ud0] by blast
  have inv0: "session_inv ?start"
    by (rule create_quiz_inv)
  obtain q where q: "current_quiz ?now = Present (Some q)"
    using moves_run [OF inv0 q0 assms(1)] by blast
  have inv: "session_inv ?now"
    by (rule run_session_inv [OF inv0])
  have wf: "quiz_wf q"
    using inv q by (simp add: session_inv_def)
  obtain q' where q': "current_quiz (snd (call_tool e c ?now)) = Present (Some q')"
    "current_question_index q' =
       (if completed q then current_question_index q else current_question_index q + 1)"
    "completed q \<longrightarrow> completed q'"
    using move_step [OF inv q assms(3), of e] by blast
  obtain q2 where q2: "current_quiz (run_session ds ?now) = Present (Some q2)"
    "current_question_index q \<le> current_question_index q2"
    "completed q \<longrightarrow> completed q2"
    using moves_run [OF inv q assms(2)] by blast
  show ?thesis
    using q wf q' q2 by (simp add: run_session_append quiz_wf_def)
qed


theorem quiz_progress_example:
  "is_move (SubmitAnswer ''a'') \<and> is_move SkipQuestion \<and>
   (\<exists>q q' q2.
      current_quiz (run_session [(timeout_env, SubmitAnswer ''a'')]
        (snd (create_quiz no_room_env ''algebra'' 5 ''medium'' initial_userdata))) = Present (Some q) \<and>
      current_question_index q \<le> int (length (questions q)) \<and>
      current_quiz (snd (call_tool ok_env SkipQuestion
        (run_session [(timeout_env, SubmitAnswer ''a'')]
          (snd (create_quiz no_room_env ''algebra'' 5 ''medium'' initial_userdata))))) = Present (Some q') \<and>
      (\<not> completed q \<longrightarrow> current_question_index q' = current_question_index q + 1) \<and>
      current_quiz (run_session ([(timeout_env, SubmitAnswer ''a'')] @ [(no_room_env, SkipQuestion)])
        (snd (create_quiz no_room_env ''algebra'' 5 ''medium'' initial_userdata))) = Present (Some q2) \<and>
      current_question_index q \<le> current_question_index q2) \<and>
   map_attr (map_option current_question_index)
     (current_quiz (run_session [(timeout_env, SubmitAnswer ''a'')]
        (snd (create_quiz no_room_env ''algebra'' 5 ''medium'' initial_userdata)))) = Present (Some 1) \<and>
   map_attr (map_option completed)
     (current_quiz (run_session [(timeout_env, SubmitAnswer ''a''), (no_room_env, SkipQuestion)]
        (snd (create_quiz no_room_env ''algebra'' 5 ''medium'' initial_userdata)))) = Present (Some True)"
proof -
  have h1: "\<forall>x \<in> set [(timeout_env, SubmitAnswer ''a'')]. is_move (snd x)"
    by (simp add: is_move_def)
  have h2: "\<forall>x \<in> set [(no_room_env, SkipQuestion)]. is_move (snd x)"
    by (simp add: is_move_def)
  have h3: "is_move SkipQuestion"
    by (simp add: is_move_def)
  have v1: "map_attr (map_option current_question_index)
     (current_quiz (run_session [(timeout_env, SubmitAnswer ''a'')]
        (snd (create_quiz no_room_env ''algebra'' 5 ''medium'' initial_userdata)))) = Present (Some 1)"
    by code_simp
  have v2: "map_attr (map_option completed)
     (current_quiz (run_session [(timeout_env, SubmitAnswer ''a''), (no_room_env, SkipQuestion)]
        (snd (create_quiz no_room_env ''algebra'' 5 ''medium'' initial_userdata)))) = Present (Some True)"
    by code_simp
  have h4: "is_move (SubmitAnswer ''a'')"
    by (simp add: is_move_def)
  show ?thesis
    using quiz_progress [OF h1 h2 h3, of no_room_env "''algebra''" 5 "''medium''"
        initial_userdata ok_env] h3 h4 v1 v2
    by blast
qed

subsection \<open>The missing attributes of the session object\<close>

lemma history_absent_step:
  assumes "quiz_history ud = Absent"
  shows "quiz_history (snd (call_tool e c ud)) = Absent"
proof (cases c)
  case (CreateQuiz t n d)
  then show ?thesis
    using assms by (simp add: call_tool_def create_quiz_def Let_def)
next
  case (SubmitAnswer a)
  then show ?thesis
    using assms
    by (auto simp: call_tool_def submit_answer_def complete_quiz_def Let_def
          split: attr.splits option.splits sum.splits)
next
  case SkipQuestion
  then show ?thesis
    using assms
    by (auto simp: call_tool_def skip_question_def complete_quiz_def Let_def
          split: attr.splits option.splits sum.splits)
next
  case GetQuizStatus
  then show ?thesis
    using assms by (simp add: call_tool_def get_quiz_status_state)
next
  case ShowQuizResults
  then show ?thesis
    using assms by (simp add: call_tool_def show_quiz_results_state)
qed

lemma reachable_history_absent: "quiz_history (run_session cs initial_userdata) = Absent"
proof -
  have "quiz_history ud = Absent \<Longrightarrow> quiz_history (run_session cs ud) = Absent" for ud
  proof (induction cs arbitrary: ud)
    case Nil
    then show ?case by simp
  next
    case (Cons x cs)
    obtain e c where x: "x = (e, c)" by (cases x)
    show ?case
      using Cons.IH [OF history_absent_step [OF Cons.prems, of e c]] by (simp add: x)
  qed
  then show ?thesis
    by (simp add: initial_userdata_def)
qed

lemma create_quiz_without_history:
  assumes "quiz_history ud = Absent"
  shows "fst (create_quiz e t n d ud) = Inl AttributeError"
    and "quiz_history (snd (create_quiz e t n d ud)) = Absent"
  using assms by (simp_all add: create_quiz_def Let_def)

lemma fresh_session_raises: "fst (call_tool e c initial_userdata) = Inl AttributeError"
  by (cases c)
     (simp_all add: call_tool_def initial_userdata_def create_quiz_def submit_answer_def
        skip_question_def get_quiz_status_def show_quiz_results_def Let_def)

lemma completing_move_without_history:
  assumes "current_quiz ud = Present (Some q)" and "quiz_wf q" and "\<not> completed q"
    and "is_move c" and "current_question_index q + 1 = int (length (questions q))"
    and "quiz_history ud = Absent"
  shows "fst (call_tool e c ud) = Inl AttributeError"
proof -
  obtain ans ok where "call_tool e c ud = after_move e ud (record_answer q ans ok)"
    using move_result [OF assms(1-4)] by blast
  then show ?thesis
    using assms(5,6) by (simp add: after_move_def record_answer_fields)
qed

text \<open>
  C2 does not hold of the code: \<open>UserData\<close> has neither attribute, and the tools read
  them outside any \<open>try\<close>. On a session as created every tool call raises
  AttributeError; in every state that a session reaches \<open>create_quiz\<close> raises it (at
  the append to \<open>quiz_history\<close>, after storing the quiz), and so does every submit or
  skip that answers the last question (at the loop over \<open>quiz_history\<close>).
\<close>

theorem tools_raise_attribute_error:
  "fst (call_tool e c initial_userdata) = Inl AttributeError \<and>
   fst (create_quiz e t n d (run_session cs initial_userdata)) = Inl AttributeError \<and>
   (\<forall>q. current_quiz (run_session cs initial_userdata) = Present (Some q) \<and>
        \<not> completed q \<and> is_move c \<and>
        current_question_index q + 1 = int (length (questions q)) \<longrightarrow>
        fst (call_tool e c (run_session cs initial_userdata)) = Inl AttributeError)"
proof -
  have h: "quiz_history (run_session cs initial_userdata) = Absent"
    by (rule reachable_history_absent)
  have mv: "\<forall>q. current_quiz (run_session cs initial_userdata) = Present (Some q) \<and>
        \<not> completed q \<and> is_move c \<and>
        current_question_index q + 1 = int (length (questions q)) \<longrightarrow>
        fst (call_tool e c (run_session cs initial_userdata)) = Inl AttributeError"
    using completing_move_without_history [OF _ reachable_active_quiz _ _ _ h] by blast
  show ?thesis
    using fresh_session_raises [of e c] create_quiz_without_history(1) [OF h, of e t n d] mv
    by (intro conjI)
qed

theorem tools_raise_attribute_error_example:
  "fst (call_tool ok_env (CreateQuiz ''algebra'' 5 ''medium'') initial_userdata) =
     Inl AttributeError \<and>
   fst (call_tool ok_env GetQuizStatus initial_userdata) = Inl AttributeError \<and>
   current_quiz (run_session [(ok_env, CreateQuiz ''fractions'' 1 ''easy'')] initial_userdata) =
     Present (Some \<lparr>quiz_id = ''id-4'', topic = ''fractions'', difficulty = ''easy'',
                     questions = fractions_questions sample_uuid,
                     current_question_index = 0, score = 0, completed = False\<rparr>) \<and>
   fst (call_tool ok_env (SubmitAnswer ''b'')
          (run_session [(ok_env, CreateQuiz ''fractions'' 1 ''easy'')] initial_userdata)) =
     Inl AttributeError"
proof -
  let ?q = "\<lparr>quiz_id = ''id-4'', topic = ''fractions'', difficulty = ''easy'',
             questions = fractions_questions sample_uuid,
             current_question_index = 0, score = 0, completed = False\<rparr>"
  have c: "current_quiz (run_session [(ok_env, CreateQuiz ''fractions'' 1 ''easy'')]
             initial_userdata) = Present (Some ?q)"
    by code_simp
  have p: "\<not> completed ?q" "is_move (SubmitAnswer ''b'')"
    "current_question_index ?q + 1 = int (length (questions ?q))"
    by (simp_all add: is_move_def)
  have a: "fst (call_tool ok_env (CreateQuiz ''algebra'' 5 ''medium'') initial_userdata) =
     Inl AttributeError"
    using tools_raise_attribute_error [of ok_env "CreateQuiz ''algebra'' 5 ''medium''"]
    by blast
  have b: "fst (call_tool ok_env GetQuizStatus initial_userdata) = Inl AttributeError"
    using tools_raise_attribute_error [of ok_env GetQuizStatus] by blast
  have d: "fst (call_tool ok_env (SubmitAnswer ''b'')
          (run_session [(ok_env, CreateQuiz ''fractions'' 1 ''easy'')] initial_userdata)) =
     Inl AttributeError"
    using tools_raise_attribute_error
      [of ok_env "SubmitAnswer ''b''" _ _ _ "[(ok_env, CreateQuiz ''fractions'' 1 ''easy'')]"]
      c p
    by blast
  show ?thesis
    using a b c d by (intro conjI)
qed

text \<open>
  C8 does not hold of the code: the session object is created without a
  \<open>quiz_history\<close> attribute and none is ever assigned, so in every state that a
  session reaches there is no history; \<open>create_quiz\<close> raises AttributeError where it
  would append its entry, and leaves no history behind.
\<close>

theorem history_is_never_created:
  "quiz_history initial_userdata = Absent \<and>
   quiz_history (run_session cs initial_userdata) = Absent \<and>
   fst (create_quiz e t n d (run_session cs initial_userdata)) = Inl AttributeError \<and>
   quiz_history (snd (create_quiz e t n d (run_session cs initial_userdata))) = Absent"
  using reachable_history_absent [of cs]
    create_quiz_without_history [OF reachable_history_absent, of e t n d cs]
  by (simp add: initial_userdata_def)

theorem history_is_never_created_example:
  "quiz_history (run_session [(ok_env, CreateQuiz ''algebra'' 5 ''medium'')] initial_userdata) =
     Absent \<and>
   fst (create_quiz ok_env ''algebra'' 5 ''medium'' initial_userdata) = Inl AttributeError \<and>
   snd (create_quiz ok_env ''algebra'' 5 ''medium'' initial_userdata) =
     \<lparr>current_quiz = Present (Some \<lparr>quiz_id = ''id-4'', topic = ''algebra'',
                                     difficulty = ''medium'',
                                     questions = algebra_questions sample_uuid,
                                     current_question_index = 0, score = 0,
                                     completed = False\<rparr>),
      quiz_history = Absent\<rparr>"
proof (intro conjI)
  show "quiz_history (run_session [(ok_env, CreateQuiz ''algebra'' 5 ''medium'')]
          initial_userdata) = Absent"
    using history_is_never_created [of "[(ok_env, CreateQuiz ''algebra'' 5 ''medium'')]"]
    by blast
qed code_simp+

subsection \<open>Answering and skipping\<close>

lemma ascii_answers:
  "list_all is_ascii ''a''" "list_all is_ascii ''A''"
  "list_all is_ascii ''A) x = 5''" "list_all is_ascii ''option a''"
  "\<not> list_all is_ascii [CHR 0xC3, CHR 0x9F]"
  by code_simp+

lemma upper_char_answers:
  "map upper_char ''a'' = ''A''" "map upper_char ''A'' = ''A''"
  "map upper_char ''A) x = 5'' = ''A) X = 5''" "map upper_char ''option a'' = ''OPTION A''"
  by code_simp+

lemma upper_letter_a: "upper u ''a'' = ''A''" "upper u ''A'' = ''A''"
  by (simp_all only: upper_def ascii_answers upper_char_answers if_True)

lemma upper_long_answers:
  "upper u ''A) x = 5'' = ''A) X = 5''" "upper u ''option a'' = ''OPTION A''"
  by (simp_all only: upper_def ascii_answers upper_char_answers if_True)

lemma upper_ascii:
  assumes "list_all is_ascii s"
  shows "upper u s = map upper_char s" and "length (upper u s) = length s"
  using assms by (simp_all add: upper_def)

lemma upper_outside_ascii:
  assumes "\<not> list_all is_ascii s"
  shows "upper u s = u s"
  using assms by (simp add: upper_def)

text \<open>
  C4, as the code has it: on a completed quiz both calls are refused and return the
  session state as it was, so score, index and every question's recorded answer and
  correctness are unchanged. The sentence of \<open>submit_answer\<close> carries the final score
  (score/total); the sentence of \<open>skip_question\<close> is the fixed text
  "Quiz is already completed." and carries no score.
\<close>

theorem completed_quiz_rejects_moves:
  assumes "current_quiz ud = Present (Some q)" and "completed q"
  shows "submit_answer e a ud =
           (Inr (''This quiz is already completed. Your score was '' @ str_int (score q)
                 @ ''/'' @ str_int (int (length (questions q))) @ ''.''), ud) \<and>
         skip_question e ud = (Inr ''Quiz is already completed.'', ud)"
  using assms by (simp add: submit_answer_def skip_question_def score_text_def)

lemma completed_fractions_session:
  "current_quiz
     (run_session [(no_room_env, CreateQuiz ''fractions'' 1 ''easy''),
                   (no_room_env, SubmitAnswer ''b'')] initial_userdata) =
     Present (Some \<lparr>quiz_id = ''id-4'', topic = ''fractions'', difficulty = ''easy'',
            questions = [(new_question ''id-3'' ''What is 1/2 + 1/4?''
                           [''A) 2/6'', ''B) 3/4'', ''C) 1/6'', ''D) 2/4''] ''B''
                           ''1/2 + 1/4 = 2/4 + 1/4 = 3/4'')
                         \<lparr>user_answer := Some ''B'', is_correct := Some True\<rparr>],
            current_question_index = 1, score = 1, completed = True\<rparr>)"
  by code_simp

theorem completed_quiz_rejects_moves_example:
  "current_quiz
     (run_session [(no_room_env, CreateQuiz ''fractions'' 1 ''easy''),
                   (no_room_env, SubmitAnswer ''b'')] initial_userdata) =
     Present (Some \<lparr>quiz_id = ''id-4'', topic = ''fractions'', difficulty = ''easy'',
            questions = [(new_question ''id-3'' ''What is 1/2 + 1/4?''
                           [''A) 2/6'', ''B) 3/4'', ''C) 1/6'', ''D) 2/4''] ''B''
                           ''1/2 + 1/4 = 2/4 + 1/4 = 3/4'')
                         \<lparr>user_answer := Some ''B'', is_correct := Some True\<rparr>],
            current_question_index = 1, score = 1, completed = True\<rparr>) \<and>
   submit_answer ok_env ''a''
     (run_session [(no_room_env, CreateQuiz ''fractions'' 1 ''easy''),
                   (no_room_env, SubmitAnswer ''b'')] initial_userdata) =
     (Inr ''This quiz is already completed. Your score was 1/1.'',
      run_session [(no_room_env, CreateQuiz ''fractions'' 1 ''easy''),
                   (no_room_env, SubmitAnswer ''b'')] initial_userdata) \<and>
   skip_question ok_env
     (run_session [(no_room_env, CreateQuiz ''fractions'' 1 ''easy''),
                   (no_room_env, SubmitAnswer ''b'')] initial_userdata) =
     (Inr ''Quiz is already completed.'',
      run_session [(no_room_env, CreateQuiz ''fractions'' 1 ''easy''),
                   (no_room_env, SubmitAnswer ''b'')] initial_userdata)"
proof -
  let ?q = "\<lparr>quiz_id = ''id-4'', topic = ''fractions'', difficulty = ''easy'',
            questions = [(new_question ''id-3'' ''What is 1/2 + 1/4?''
                           [''A) 2/6'', ''B) 3/4'', ''C) 1/6'', ''D) 2/4''] ''B''
                           ''1/2 + 1/4 = 2/4 + 1/4 = 3/4'')
                         \<lparr>user_answer := Some ''B'', is_correct := Some True\<rparr>],
            current_question_index = 1, score = 1, completed = True\<rparr>"
  have d: "completed ?q"
    by simp
  note t = completed_quiz_rejects_moves [OF completed_fractions_session d, of ok_env "''a''"]
  have s1: "submit_answer ok_env ''a''
     (run_session [(no_room_env, CreateQuiz ''fractions'' 1 ''easy''),
                   (no_room_env, SubmitAnswer ''b'')] initial_userdata) =
     (Inr ''This quiz is already completed. Your score was 1/1.'',
      run_session [(no_room_env, CreateQuiz ''fractions'' 1 ''easy''),
                   (no_room_env, SubmitAnswer ''b'')] initial_userdata)"
    using conjunct1 [OF t] by (simp add: str_int_examples del: run_session.simps)
  have s2: "skip_question ok_env
     (run_session [(no_room_env, CreateQuiz ''fractions'' 1 ''easy''),
                   (no_room_env, SubmitAnswer ''b'')] initial_userdata) =
     (Inr ''Quiz is already completed.'',
      run_session [(no_room_env, CreateQuiz ''fractions'' 1 ''easy''),
                   (no_room_env, SubmitAnswer ''b'')] initial_userdata)"
    by (rule conjunct2 [OF t])
  show ?thesis
    using completed_fractions_session s1 s2 by (intro conjI)
qed

text \<open>
  C4 as stated fails for \<open>skip_question\<close>: on a quiz completed with score 1 of 1 its
  reply is "Quiz is already completed.", in which the score does not occur.
\<close>

theorem skip_on_completed_quiz_omits_score:
  "map_attr (map_option score) (current_quiz
     (run_session [(no_room_env, CreateQuiz ''fractions'' 1 ''easy''),
                   (no_room_env, SubmitAnswer ''b'')] initial_userdata)) = Present (Some 1) \<and>
   map_attr (map_option completed) (current_quiz
     (run_session [(no_room_env, CreateQuiz ''fractions'' 1 ''easy''),
                   (no_room_env, SubmitAnswer ''b'')] initial_userdata)) = Present (Some True) \<and>
   fst (skip_question ok_env
     (run_session [(no_room_env, CreateQuiz ''fractions'' 1 ''easy''),
                   (no_room_env, SubmitAnswer ''b'')] initial_userdata)) =
     Inr ''Quiz is already completed.'' \<and>
   str_int 1 = ''1'' \<and>
   CHR ''1'' \<notin> set ''Quiz is already completed.''"
  by code_simp


lemma submit_answer_quiz:
  assumes "current_quiz ud = Present (Some q)" and "quiz_wf q" and "\<not> completed q"
  shows "\<exists>q'. current_quiz (snd (submit_answer e a ud)) = Present (Some q') \<and>
           score q' = score q +
             (if upper (unicode_upper e) a =
                 upper (unicode_upper e)
                   (correct_answer (questions q ! nat (current_question_index q)))
              then 1 else 0) \<and>
           current_question_index q' = current_question_index q + 1 \<and>
           questions q' = (questions q)
             [nat (current_question_index q) :=
                (questions q ! nat (current_question_index q))
                  \<lparr>user_answer := Some (upper (unicode_upper e) a),
                   is_correct := Some (upper (unicode_upper e) a =
                     upper (unicode_upper e)
                       (correct_answer (questions q ! nat (current_question_index q))))\<rparr>]"
  by (simp add: submit_answer_result [OF assms] after_move_current record_answer_def)

lemma skip_question_quiz:
  assumes "current_quiz ud = Present (Some q)" and "quiz_wf q" and "\<not> completed q"
  shows "\<exists>q'. current_quiz (snd (skip_question e ud)) = Present (Some q') \<and>
           score q' = score q \<and>
           current_question_index q' = current_question_index q + 1 \<and>
           questions q' = (questions q)
             [nat (current_question_index q) :=
                (questions q ! nat (current_question_index q))
                  \<lparr>user_answer := Some ''SKIPPED'', is_correct := Some False\<rparr>]"
  by (simp add: skip_question_result [OF assms] after_move_current record_answer_def)

lemma quiz_wf_position:
  assumes "quiz_wf q" and "\<not> completed q"
  shows "nat (current_question_index q) < length (questions q)"
  using assms by (auto simp: quiz_wf_def)

text \<open>
  C5: on the active, not completed quiz of any reachable session state,
  \<open>submit_answer\<close> adds exactly 1 to the score when the upper-cased answer equals the
  upper-cased correct letter of the current question and exactly 0 otherwise (so both
  "a" and "A" score against "A"); \<open>skip_question\<close> leaves the score as it is, marks
  the current question incorrect and records the answer SKIPPED.
\<close>

theorem scoring_of_moves:
  assumes "current_quiz (run_session cs initial_userdata) = Present (Some q)"
    and "\<not> completed q"
  shows "\<exists>q1 q2.
           current_quiz (snd (submit_answer e a (run_session cs initial_userdata))) =
             Present (Some q1) \<and>
           score q1 = score q +
             (if upper (unicode_upper e) a =
                 upper (unicode_upper e)
                   (correct_answer (questions q ! nat (current_question_index q)))
              then 1 else 0) \<and>
           (correct_answer (questions q ! nat (current_question_index q)) = ''A'' \<and>
              (a = ''a'' \<or> a = ''A'') \<longrightarrow> score q1 = score q + 1) \<and>
           current_quiz (snd (skip_question e' (run_session cs initial_userdata))) =
             Present (Some q2) \<and>
           score q2 = score q \<and>
           is_correct (questions q2 ! nat (current_question_index q)) = Some False \<and>
           user_answer (questions q2 ! nat (current_question_index q)) = Some ''SKIPPED''"
proof -
  have wf: "quiz_wf q"
    by (rule reachable_active_quiz [OF assms(1)])
  have pos: "nat (current_question_index q) < length (questions q)"
    by (rule quiz_wf_position [OF wf assms(2)])
  obtain q1 where q1:
    "current_quiz (snd (submit_answer e a (run_session cs initial_userdata))) = Present (Some q1)"
    "score q1 = score q +
       (if upper (unicode_upper e) a =
           upper (unicode_upper e)
             (correct_answer (questions q ! nat (current_question_index q)))
        then 1 else 0)"
    using submit_answer_quiz [OF assms(1) wf assms(2), of e a] by blast
  obtain q2 where q2:
    "current_quiz (snd (skip_question e' (run_session cs initial_userdata))) = Present (Some q2)"
    "score q2 = score q"
    "questions q2 = (questions q)
       [nat (current_question_index q) :=
          (questions q ! nat (current_question_index q))
            \<lparr>user_answer := Some ''SKIPPED'', is_correct := Some False\<rparr>]"
    using skip_question_quiz [OF assms(1) wf assms(2), of e'] by blast
  have a: "correct_answer (questions q ! nat (current_question_index q)) = ''A'' \<and>
              (a = ''a'' \<or> a = ''A'') \<longrightarrow> score q1 = score q + 1"
    using q1(2) by (auto simp: upper_letter_a)
  show ?thesis
    using q1 q2 a pos by simp
qed

text \<open>
  C9: \<open>submit_answer\<close> compares the whole upper-cased answer with the upper-cased
  correct answer: the recorded \<open>user_answer\<close> is \<open>answer.upper()\<close> of the full
  submitted string (the ASCII upper-casing for an ASCII answer, the interpreter's
  Unicode upper-casing otherwise), the recorded correctness is that equality, and an
  unequal answer scores 0. With the correct answer "A", the answers "A) x = 5" and
  "option a" are marked incorrect, score 0, and are recorded as "A) X = 5" and
  "OPTION A", not as the letter "A".
\<close>

theorem whole_answer_is_compared:
  assumes "current_quiz (run_session cs initial_userdata) = Present (Some q)"
    and "\<not> completed q"
  shows "\<exists>q1.
           current_quiz (snd (submit_answer e a (run_session cs initial_userdata))) =
             Present (Some q1) \<and>
           user_answer (questions q1 ! nat (current_question_index q)) =
             Some (upper (unicode_upper e) a) \<and>
           is_correct (questions q1 ! nat (current_question_index q)) =
             Some (upper (unicode_upper e) a =
                   upper (unicode_upper e)
                     (correct_answer (questions q ! nat (current_question_index q)))) \<and>
           (upper (unicode_upper e) a \<noteq>
              upper (unicode_upper e)
                (correct_answer (questions q ! nat (current_question_index q)))
              \<longrightarrow> score q1 = score q) \<and>
           (list_all is_ascii a \<longrightarrow>
              user_answer (questions q1 ! nat (current_question_index q)) =
                Some (map upper_char a)) \<and>
           (\<not> list_all is_ascii a \<longrightarrow>
              user_answer (questions q1 ! nat (current_question_index q)) =
                Some (unicode_upper e a)) \<and>
           (correct_answer (questions q ! nat (current_question_index q)) = ''A'' \<and>
              a = ''A) x = 5''
              \<longrightarrow> is_correct (questions q1 ! nat (current_question_index q)) = Some False \<and>
                   score q1 = score q \<and>
                   user_answer (questions q1 ! nat (current_question_index q)) =
                     Some ''A) X = 5'') \<and>
           (correct_answer (questions q ! nat (current_question_index q)) = ''A'' \<and>
              a = ''option a''
              \<longrightarrow> is_correct (questions q1 ! nat (current_question_index q)) = Some False \<and>
                   score q1 = score q \<and>
                   user_answer (questions q1 ! nat (current_question_index q)) =
                     Some ''OPTION A'')"
proof -
  let ?cur = "questions q ! nat (current_question_index q)"
  let ?u = "upper (unicode_upper e)"
  have wf: "quiz_wf q"
    by (rule reachable_active_quiz [OF assms(1)])
  have pos: "nat (current_question_index q) < length (questions q)"
    by (rule quiz_wf_position [OF wf assms(2)])
  obtain q1 where q1:
    "current_quiz (snd (submit_answer e a (run_session cs initial_userdata))) = Present (Some q1)"
    "score q1 = score q + (if ?u a = ?u (correct_answer ?cur) then 1 else 0)"
    "questions q1 = (questions q)
       [nat (current_question_index q) :=
          ?cur\<lparr>user_answer := Some (?u a),
                is_correct := Some (?u a = ?u (correct_answer ?cur))\<rparr>]"
    using submit_answer_quiz [OF assms(1) wf assms(2), of e a] by blast
  have ua: "user_answer (questions q1 ! nat (current_question_index q)) = Some (?u a)"
    and ic: "is_correct (questions q1 ! nat (current_question_index q)) =
             Some (?u a = ?u (correct_answer ?cur))"
    using q1(3) pos by simp_all
  have sc: "?u a \<noteq> ?u (correct_answer ?cur) \<longrightarrow> score q1 = score q"
    using q1(2) by simp
  have asc: "list_all is_ascii a \<longrightarrow>
              user_answer (questions q1 ! nat (current_question_index q)) =
                Some (map upper_char a)"
    using ua by (simp add: upper_ascii)
  have non: "\<not> list_all is_ascii a \<longrightarrow>
              user_answer (questions q1 ! nat (current_question_index q)) =
                Some (unicode_upper e a)"
    using ua by (simp add: upper_outside_ascii)
  have ex1: "correct_answer ?cur = ''A'' \<and> a = ''A) x = 5''
              \<longrightarrow> is_correct (questions q1 ! nat (current_question_index q)) = Some False \<and>
                   score q1 = score q \<and>
                   user_answer (questions q1 ! nat (current_question_index q)) =
                     Some ''A) X = 5''"
    using ua ic q1(2) by (auto simp: upper_letter_a upper_long_answers)
  have ex2: "correct_answer ?cur = ''A'' \<and> a = ''option a''
              \<longrightarrow> is_correct (questions q1 ! nat (current_question_index q)) = Some False \<and>
                   score q1 = score q \<and>
                   user_answer (questions q1 ! nat (current_question_index q)) =
                     Some ''OPTION A''"
    using ua ic q1(2) by (auto simp: upper_letter_a upper_long_answers)
  show ?thesis
    using q1(1) ua ic sc asc non ex1 ex2 by (intro exI [of _ q1] conjI)
qed

lemma algebra_session:
  "current_quiz (run_session [(no_room_env, CreateQuiz ''algebra'' 5 ''medium'')] initial_userdata) =
     Present (Some \<lparr>quiz_id = ''id-4'', topic = ''algebra'', difficulty = ''medium'',
            questions = algebra_questions sample_uuid,
            current_question_index = 0, score = 0, completed = False\<rparr>)"
  by code_simp

theorem scoring_of_moves_example:
  "current_quiz (run_session [(no_room_env, CreateQuiz ''algebra'' 5 ''medium'')] initial_userdata) =
     Present (Some \<lparr>quiz_id = ''id-4'', topic = ''algebra'', difficulty = ''medium'',
            questions = algebra_questions sample_uuid,
            current_question_index = 0, score = 0, completed = False\<rparr>) \<and>
   (\<exists>q1 q2.
      current_quiz (snd (submit_answer timeout_env ''a''
        (run_session [(no_room_env, CreateQuiz ''algebra'' 5 ''medium'')] initial_userdata))) =
        Present (Some q1) \<and>
      score q1 = 1 \<and>
      current_quiz (snd (skip_question no_peer_env
        (run_session [(no_room_env, CreateQuiz ''algebra'' 5 ''medium'')] initial_userdata))) =
        Present (Some q2) \<and>
      score q2 = 0 \<and>
      is_correct (questions q2 ! 0) = Some False)"
proof -
  let ?q = "\<lparr>quiz_id = ''id-4'', topic = ''algebra'', difficulty = ''medium'',
            questions = algebra_questions sample_uuid,
            current_question_index = 0, score = 0, completed = False\<rparr>"
  have n: "\<not> completed ?q"
    by simp
  have c: "correct_answer (questions ?q ! nat (current_question_index ?q)) = ''A''"
    by (simp add: algebra_questions_def new_question_def)
  show ?thesis
    using scoring_of_moves [OF algebra_session n, of timeout_env "''a''" no_peer_env] c
      algebra_session
    by auto
qed

theorem whole_answer_is_compared_example:
  "(\<exists>q1.
      current_quiz (snd (submit_answer ok_env ''A) x = 5''
        (run_session [(no_room_env, CreateQuiz ''algebra'' 5 ''medium'')] initial_userdata))) =
        Present (Some q1) \<and>
      user_answer (questions q1 ! 0) = Some ''A) X = 5'' \<and>
      is_correct (questions q1 ! 0) = Some False \<and>
      score q1 = 0) \<and>
   (\<exists>q1.
      current_quiz (snd (submit_answer ok_env [CHR 0xC3, CHR 0x9F]
        (run_session [(no_room_env, CreateQuiz ''algebra'' 5 ''medium'')] initial_userdata))) =
        Present (Some q1) \<and>
      user_answer (questions q1 ! 0) = Some ''SS'')"
proof -
  let ?q = "\<lparr>quiz_id = ''id-4'', topic = ''algebra'', difficulty = ''medium'',
            questions = algebra_questions sample_uuid,
            current_question_index = 0, score = 0, completed = False\<rparr>"
  have n: "\<not> completed ?q"
    by simp
  have c: "correct_answer (questions ?q ! nat (current_question_index ?q)) = ''A''"
    by (simp add: algebra_questions_def new_question_def)
  have u: "unicode_upper ok_env [CHR 0xC3, CHR 0x9F] = ''SS''"
    by (simp add: ok_env_def sample_upper_def)
  have a: "\<exists>q1.
      current_quiz (snd (submit_answer ok_env ''A) x = 5''
        (run_session [(no_room_env, CreateQuiz ''algebra'' 5 ''medium'')] initial_userdata))) =
        Present (Some q1) \<and>
      user_answer (questions q1 ! 0) = Some ''A) X = 5'' \<and>
      is_correct (questions q1 ! 0) = Some False \<and>
      score q1 = 0"
    using whole_answer_is_compared [OF algebra_session n, of ok_env "''A) x = 5''"] c
    by auto
  have b: "\<exists>q1.
      current_quiz (snd (submit_answer ok_env [CHR 0xC3, CHR 0x9F]
        (run_session [(no_room_env, CreateQuiz ''algebra'' 5 ''medium'')] initial_userdata))) =
        Present (Some q1) \<and>
      user_answer (questions q1 ! 0) = Some ''SS''"
    using whole_answer_is_compared [OF algebra_session n, of ok_env "[CHR 0xC3, CHR 0x9F]"]
      ascii_answers(5) u
    by auto
  show ?thesis
    using a b by (intro conjI)
qed

subsection \<open>Percentages\<close>

lemma percentage_of_is_floor:
  assumes "0 \<le> s" and "0 < n"
  shows "percentage_of s n = Inr \<lfloor>rat_of_int s / rat_of_int (int n) * 100\<rfloor>"
  using assms by (simp add: percentage_of_def py_int_trunc_def)

lemma complete_quiz_reply_no_room:
  assumes "room e = None"
  shows "complete_quiz_reply e q pct =
           ''Quiz completed! Final score: '' @ score_text q @ '' ('' @ str_int pct @ ''%)''"
  using assms by (simp add: complete_quiz_reply_def)

lemma complete_quiz_reply_answered:
  assumes "room e = Some (p # ps)"
  shows "complete_quiz_reply e q pct =
           (case rpc e p (CompleteQuiz (quiz_id q) (score q) (int (length (questions q))) pct) of
              BodyObject ok err \<Rightarrow>
                if ok then ''Quiz completed! You scored '' @ score_text q @ '' (''
                           @ str_int pct @ ''%). Great job!''
                else ''Quiz completed! Score: '' @ score_text q @ '' ('' @ str_int pct @ ''%)''
            | _ \<Rightarrow> ''Quiz completed! Final score: '' @ score_text q @ '' (''
                   @ str_int pct @ ''%)'')"
  using assms by (simp add: complete_quiz_reply_def first_participant_def Let_def)

lemma mark_completed_percentage:
  assumes "x \<in> set (map (mark_completed q p) hs)" and "hist_id x = quiz_id q"
  shows "percentage x = Some p \<and> status x = ''completed'' \<and> hist_score x = Some (score_text q)"
  using assms by (auto simp: mark_completed_def split: if_splits)

lemma get_quiz_status_active:
  assumes "current_quiz ud = Present (Some q)"
    and "0 \<le> score q" and "1 \<le> length (questions q)"
  shows "get_quiz_status e ud =
     (Inr (if completed q
           then ''Quiz completed! Final score: '' @ score_text q @ '' (''
                @ str_int (score q * 100 div int (length (questions q))) @ ''%)''
           else ''Currently on question '' @ str_int (current_question_index q + 1)
                @ '' of '' @ str_int (int (length (questions q)))
                @ ''. Score so far: '' @ str_int (score q) @ ''/''
                @ str_int (current_question_index q) @ '' answered correctly.''), ud)"
proof -
  have "0 < length (questions q)"
    using assms(3) by (cases "questions q") simp_all
  then show ?thesis
    using assms(1) by (simp add: get_quiz_status_def percentage_of_floor [OF assms(2)])
qed

lemma show_quiz_results_acknowledged:
  assumes "current_quiz ud = Present (Some q)" and "completed q"
    and "0 \<le> score q" and "1 \<le> length (questions q)"
    and "room e = Some (p # ps)"
    and "rpc e p (ShowResults (quiz_id q) (score q) (int (length (questions q)))
                    (score q * 100 div int (length (questions q)))
                    (result_rows (questions q))) = BodyObject True err"
  shows "fst (show_quiz_results e ud) =
           Inr (''Here are your detailed results: '' @ score_text q @ '' correct (''
                @ str_int (score q * 100 div int (length (questions q))) @ ''%)'')"
proof -
  have "0 < length (questions q)"
    using assms(4) by (cases "questions q") simp_all
  then show ?thesis
    using assms(1,2,5,6)
    by (simp add: show_quiz_results_def first_participant_def Let_def
          percentage_of_floor [OF assms(3)])
qed

lemma completing_move_with_history:
  assumes "current_quiz ud = Present (Some q)" and "quiz_wf q" and "\<not> completed q"
    and "is_move c" and "current_question_index q + 1 = int (length (questions q))"
    and "quiz_history ud = Present h"
  shows "\<exists>q'. call_tool e c ud =
           (Inr (complete_quiz_reply e q' (score q' * 100 div int (length (questions q)))),
            ud\<lparr>current_quiz := Present (Some q'),
                quiz_history := Present (map (mark_completed q'
                  (score q' * 100 div int (length (questions q)))) h)\<rparr>) \<and>
           completed q' \<and> length (questions q') = length (questions q) \<and>
           quiz_id q' = quiz_id q \<and> score q \<le> score q' \<and> score q' \<le> score q + 1"
proof -
  obtain ans ok where r: "call_tool e c ud = after_move e ud (record_answer q ans ok)"
    using move_result [OF assms(1-4)] by blast
  show ?thesis
    using assms(5,6)
    by (intro exI [of _ "record_answer q ans ok"])
       (simp add: r after_move_def record_answer_fields final_percentage_def)
qed


text \<open>
  C6: take any session state whose quiz \<open>q\<close> has between 1 and 10 questions and a
  score between 0 and their number. The percentage is defined (no division by zero) and
  is the floor of score / total * 100, that is \<open>score * 100 div total\<close>, truncated and
  not rounded (the example below has 1 of 3 giving 33 and 2 of 3 giving 66). That value
  is the percentage in the status sentence and in the results sentence of a completed
  quiz. When a submit or skip answers the last question and the session has its history
  list, it is the percentage in each completion sentence ("Final score", "You scored",
  "Score"), in the request sent to the frontend, and in every history entry of the
  quiz, which also gets the score summary score/total and the status completed. On a
  quiz that is not completed, \<open>show_quiz_results\<close> returns "Quiz is not completed yet.
  Finish the quiz first." and leaves the state as it is. Every quiz of a session has
  between 1 and 10 questions and such a score, because creation clamps the count to at
  least 1 and every catalog entry is non-empty.
\<close>

theorem percentages_truncate:
  assumes "current_quiz ud = Present (Some q)"
    and "1 \<le> length (questions q)" and "length (questions q) \<le> 10"
    and "0 \<le> score q" and "score q \<le> int (length (questions q))"
  shows "percentage_of (score q) (length (questions q)) =
           Inr \<lfloor>rat_of_int (score q) / rat_of_int (int (length (questions q))) * 100\<rfloor> \<and>
         \<lfloor>rat_of_int (score q) / rat_of_int (int (length (questions q))) * 100\<rfloor> =
           score q * 100 div int (length (questions q)) \<and>
         (completed q \<longrightarrow>
            get_quiz_status e ud =
              (Inr (''Quiz completed! Final score: '' @ str_int (score q) @ ''/''
                    @ str_int (int (length (questions q))) @ '' (''
                    @ str_int (score q * 100 div int (length (questions q))) @ ''%)''), ud)) \<and>
         (completed q \<longrightarrow>
            (\<forall>p ps err.
               room e = Some (p # ps) \<and>
               rpc e p (ShowResults (quiz_id q) (score q) (int (length (questions q)))
                          (score q * 100 div int (length (questions q)))
                          (result_rows (questions q))) = BodyObject True err \<longrightarrow>
               fst (show_quiz_results e ud) =
                 Inr (''Here are your detailed results: '' @ str_int (score q) @ ''/''
                      @ str_int (int (length (questions q))) @ '' correct (''
                      @ str_int (score q * 100 div int (length (questions q))) @ ''%)''))) \<and>
         (\<not> completed q \<longrightarrow>
            show_quiz_results e ud =
              (Inr ''Quiz is not completed yet. Finish the quiz first.'', ud)) \<and>
         (\<forall>h. \<not> completed q \<and> 0 \<le> current_question_index q \<and>
              current_question_index q + 1 = int (length (questions q)) \<and>
              score q \<le> current_question_index q \<and> is_move c \<and>
              quiz_history ud = Present h \<longrightarrow>
            (\<exists>q'. current_quiz (snd (call_tool e c ud)) = Present (Some q') \<and>
                  completed q' \<and> length (questions q') = length (questions q) \<and>
                  score q \<le> score q' \<and> score q' \<le> score q + 1 \<and>
                  (room e = None \<longrightarrow>
                     fst (call_tool e c ud) =
                       Inr (''Quiz completed! Final score: '' @ str_int (score q') @ ''/''
                            @ str_int (int (length (questions q))) @ '' (''
                            @ str_int (score q' * 100 div int (length (questions q)))
                            @ ''%)'')) \<and>
                  (\<forall>p ps err.
                     room e = Some (p # ps) \<and>
                     rpc e p (CompleteQuiz (quiz_id q') (score q') (int (length (questions q)))
                                (score q' * 100 div int (length (questions q)))) =
                       BodyObject True err \<longrightarrow>
                     fst (call_tool e c ud) =
                       Inr (''Quiz completed! You scored '' @ str_int (score q') @ ''/''
                            @ str_int (int (length (questions q))) @ '' (''
                            @ str_int (score q' * 100 div int (length (questions q)))
                            @ ''%). Great job!'')) \<and>
                  (\<forall>p ps err.
                     room e = Some (p # ps) \<and>
                     rpc e p (CompleteQuiz (quiz_id q') (score q') (int (length (questions q)))
                                (score q' * 100 div int (length (questions q)))) =
                       BodyObject False err \<longrightarrow>
                     fst (call_tool e c ud) =
                       Inr (''Quiz completed! Score: '' @ str_int (score q') @ ''/''
                            @ str_int (int (length (questions q))) @ '' (''
                            @ str_int (score q' * 100 div int (length (questions q)))
                            @ ''%)'')) \<and>
                  (\<forall>p ps.
                     room e = Some (p # ps) \<and>
                     rpc e p (CompleteQuiz (quiz_id q') (score q') (int (length (questions q)))
                                (score q' * 100 div int (length (questions q)))) =
                       RpcTimeout \<longrightarrow>
                     fst (call_tool e c ud) =
                       Inr (''Quiz completed! Final score: '' @ str_int (score q') @ ''/''
                            @ str_int (int (length (questions q))) @ '' (''
                            @ str_int (score q' * 100 div int (length (questions q)))
                            @ ''%)'')) \<and>
                  (\<exists>h'. quiz_history (snd (call_tool e c ud)) = Present h' \<and>
                        length h' = length h \<and>
                        (\<forall>x \<in> set h'.
                           hist_id x = quiz_id q' \<longrightarrow>
                           percentage x =
                             Some (score q' * 100 div int (length (questions q))) \<and>
                           hist_score x =
                             Some (str_int (score q') @ ''/''
                                   @ str_int (int (length (questions q)))) \<and>
                           status x = ''completed'')))) \<and>
         (\<forall>cs q0. current_quiz (run_session cs initial_userdata) = Present (Some q0) \<longrightarrow>
            1 \<le> length (questions q0) \<and> length (questions q0) \<le> 10 \<and>
            0 \<le> score q0 \<and> score q0 \<le> int (length (questions q0)))"
proof -
  let ?n = "length (questions q)"
  let ?pct = "score q * 100 div int ?n"
  have n: "0 < ?n"
    using assms(2) by (cases "questions q") simp_all
  have fl: "percentage_of (score q) ?n =
              Inr \<lfloor>rat_of_int (score q) / rat_of_int (int ?n) * 100\<rfloor>"
    by (rule percentage_of_is_floor [OF assms(4) n])
  have dv: "percentage_of (score q) ?n = Inr ?pct"
    by (rule percentage_of_floor [OF assms(4) n])
  have eq: "\<lfloor>rat_of_int (score q) / rat_of_int (int ?n) * 100\<rfloor> = ?pct"
    using fl dv by simp
  have st: "completed q \<longrightarrow>
            get_quiz_status e ud =
              (Inr (''Quiz completed! Final score: '' @ str_int (score q) @ ''/''
                    @ str_int (int ?n) @ '' ('' @ str_int ?pct @ ''%)''), ud)"
    using get_quiz_status_active [OF assms(1,4,2), of e] by (simp add: score_text_def)
  have rs: "completed q \<longrightarrow>
            (\<forall>p ps err.
               room e = Some (p # ps) \<and>
               rpc e p (ShowResults (quiz_id q) (score q) (int ?n) ?pct
                          (result_rows (questions q))) = BodyObject True err \<longrightarrow>
               fst (show_quiz_results e ud) =
                 Inr (''Here are your detailed results: '' @ str_int (score q) @ ''/''
                      @ str_int (int ?n) @ '' correct ('' @ str_int ?pct @ ''%)''))"
    using show_quiz_results_acknowledged [OF assms(1) _ assms(4,2), of e]
    by (auto simp: score_text_def)
  have nc: "\<not> completed q \<longrightarrow>
            show_quiz_results e ud =
              (Inr ''Quiz is not completed yet. Finish the quiz first.'', ud)"
    using assms(1) by (simp add: show_quiz_results_def)
  have cm: "\<forall>h. \<not> completed q \<and> 0 \<le> current_question_index q \<and>
              current_question_index q + 1 = int ?n \<and>
              score q \<le> current_question_index q \<and> is_move c \<and>
              quiz_history ud = Present h \<longrightarrow>
            (\<exists>q'. current_quiz (snd (call_tool e c ud)) = Present (Some q') \<and>
                  completed q' \<and> length (questions q') = ?n \<and>
                  score q \<le> score q' \<and> score q' \<le> score q + 1 \<and>
                  (room e = None \<longrightarrow>
                     fst (call_tool e c ud) =
                       Inr (''Quiz completed! Final score: '' @ str_int (score q') @ ''/''
                            @ str_int (int ?n) @ '' (''
                            @ str_int (score q' * 100 div int ?n) @ ''%)'')) \<and>
                  (\<forall>p ps err.
                     room e = Some (p # ps) \<and>
                     rpc e p (CompleteQuiz (quiz_id q') (score q') (int ?n)
                                (score q' * 100 div int ?n)) = BodyObject True err \<longrightarrow>
                     fst (call_tool e c ud) =
                       Inr (''Quiz completed! You scored '' @ str_int (score q') @ ''/''
                            @ str_int (int ?n) @ '' (''
                            @ str_int (score q' * 100 div int ?n) @ ''%). Great job!'')) \<and>
                  (\<forall>p ps err.
                     room e = Some (p # ps) \<and>
                     rpc e p (CompleteQuiz (quiz_id q') (score q') (int ?n)
                                (score q' * 100 div int ?n)) = BodyObject False err \<longrightarrow>
                     fst (call_tool e c ud) =
                       Inr (''Quiz completed! Score: '' @ str_int (score q') @ ''/''
                            @ str_int (int ?n) @ '' (''
                            @ str_int (score q' * 100 div int ?n) @ ''%)'')) \<and>
                  (\<forall>p ps.
                     room e = Some (p # ps) \<and>
                     rpc e p (CompleteQuiz (quiz_id q') (score q') (int ?n)
                                (score q' * 100 div int ?n)) = RpcTimeout \<longrightarrow>
                     fst (call_tool e c ud) =
                       Inr (''Quiz completed! Final score: '' @ str_int (score q') @ ''/''
                            @ str_int (int ?n) @ '' (''
                            @ str_int (score q' * 100 div int ?n) @ ''%)'')) \<and>
                  (\<exists>h'. quiz_history (snd (call_tool e c ud)) = Present h' \<and>
                        length h' = length h \<and>
                        (\<forall>x \<in> set h'.
                           hist_id x = quiz_id q' \<longrightarrow>
                           percentage x = Some (score q' * 100 div int ?n) \<and>
                           hist_score x =
                             Some (str_int (score q') @ ''/'' @ str_int (int ?n)) \<and>
                           status x = ''completed'')))"
  proof (intro allI impI)
    fix h
    assume a: "\<not> completed q \<and> 0 \<le> current_question_index q \<and>
              current_question_index q + 1 = int ?n \<and>
              score q \<le> current_question_index q \<and> is_move c \<and>
              quiz_history ud = Present h"
    have wf: "quiz_wf q"
      using a assms(2-4) by (auto simp: quiz_wf_def)
    obtain q' where q': "call_tool e c ud =
           (Inr (complete_quiz_reply e q' (score q' * 100 div int ?n)),
            ud\<lparr>current_quiz := Present (Some q'),
                quiz_history := Present (map (mark_completed q'
                  (score q' * 100 div int ?n)) h)\<rparr>)"
      "completed q'" "length (questions q') = ?n" "quiz_id q' = quiz_id q"
      "score q \<le> score q'" "score q' \<le> score q + 1"
      using completing_move_with_history [OF assms(1) wf, of c h e] a by blast
    let ?p = "score q' * 100 div int ?n"
    have st: "score_text q' = str_int (score q') @ ''/'' @ str_int (int ?n)"
      by (simp add: score_text_def q'(3))
    have cur: "current_quiz (snd (call_tool e c ud)) = Present (Some q')"
      by (simp add: q'(1))
    have r0: "room e = None \<longrightarrow>
                     fst (call_tool e c ud) =
                       Inr (''Quiz completed! Final score: '' @ str_int (score q') @ ''/''
                            @ str_int (int ?n) @ '' ('' @ str_int ?p @ ''%)'')"
      by (simp add: q'(1) complete_quiz_reply_no_room st)
    have r1: "\<forall>p ps err.
                     room e = Some (p # ps) \<and>
                     rpc e p (CompleteQuiz (quiz_id q') (score q') (int ?n) ?p) =
                       BodyObject True err \<longrightarrow>
                     fst (call_tool e c ud) =
                       Inr (''Quiz completed! You scored '' @ str_int (score q') @ ''/''
                            @ str_int (int ?n) @ '' ('' @ str_int ?p @ ''%). Great job!'')"
      by (auto simp: q'(1,3) complete_quiz_reply_answered st)
    have r2: "\<forall>p ps err.
                     room e = Some (p # ps) \<and>
                     rpc e p (CompleteQuiz (quiz_id q') (score q') (int ?n) ?p) =
                       BodyObject False err \<longrightarrow>
                     fst (call_tool e c ud) =
                       Inr (''Quiz completed! Score: '' @ str_int (score q') @ ''/''
                            @ str_int (int ?n) @ '' ('' @ str_int ?p @ ''%)'')"
      by (auto simp: q'(1,3) complete_quiz_reply_answered st)
    have r3: "\<forall>p ps.
                     room e = Some (p # ps) \<and>
                     rpc e p (CompleteQuiz (quiz_id q') (score q') (int ?n) ?p) =
                       RpcTimeout \<longrightarrow>
                     fst (call_tool e c ud) =
                       Inr (''Quiz completed! Final score: '' @ str_int (score q') @ ''/''
                            @ str_int (int ?n) @ '' ('' @ str_int ?p @ ''%)'')"
      by (auto simp: q'(1,3) complete_quiz_reply_answered st)
    have hs: "\<exists>h'. quiz_history (snd (call_tool e c ud)) = Present h' \<and>
                        length h' = length h \<and>
                        (\<forall>x \<in> set h'.
                           hist_id x = quiz_id q' \<longrightarrow>
                           percentage x = Some ?p \<and>
                           hist_score x =
                             Some (str_int (score q') @ ''/'' @ str_int (int ?n)) \<and>
                           status x = ''completed'')"
      using mark_completed_percentage [of _ q' ?p h]
      by (intro exI [of _ "map (mark_completed q' ?p) h"]) (auto simp: q'(1) st)
    show "\<exists>q'. current_quiz (snd (call_tool e c ud)) = Present (Some q') \<and>
                  completed q' \<and> length (questions q') = ?n \<and>
                  score q \<le> score q' \<and> score q' \<le> score q + 1 \<and>
                  (room e = None \<longrightarrow>
                     fst (call_tool e c ud) =
                       Inr (''Quiz completed! Final score: '' @ str_int (score q') @ ''/''
                            @ str_int (int ?n) @ '' (''
                            @ str_int (score q' * 100 div int ?n) @ ''%)'')) \<and>
                  (\<forall>p ps err.
                     room e = Some (p # ps) \<and>
                     rpc e p (CompleteQuiz (quiz_id q') (score q') (int ?n)
                                (score q' * 100 div int ?n)) = BodyObject True err \<longrightarrow>
                     fst (call_tool e c ud) =
                       Inr (''Quiz completed! You scored '' @ str_int (score q') @ ''/''
                            @ str_int (int ?n) @ '' (''
                            @ str_int (score q' * 100 div int ?n) @ ''%). Great job!'')) \<and>
                  (\<forall>p ps err.
                     room e = Some (p # ps) \<and>
                     rpc e p (CompleteQuiz (quiz_id q') (score q') (int ?n)
                                (score q' * 100 div int ?n)) = BodyObject False err \<longrightarrow>
                     fst (call_tool e c ud) =
                       Inr (''Quiz completed! Score: '' @ str_int (score q') @ ''/''
                            @ str_int (int ?n) @ '' (''
                            @ str_int (score q' * 100 div int ?n) @ ''%)'')) \<and>
                  (\<forall>p ps.
                     room e = Some (p # ps) \<and>
                     rpc e p (CompleteQuiz (quiz_id q') (score q') (int ?n)
                                (score q' * 100 div int ?n)) = RpcTimeout \<longrightarrow>
                     fst (call_tool e c ud) =
                       Inr (''Quiz completed! Final score: '' @ str_int (score q') @ ''/''
                            @ str_int (int ?n) @ '' (''
                            @ str_int (score q' * 100 div int ?n) @ ''%)'')) \<and>
                  (\<exists>h'. quiz_history (snd (call_tool e c ud)) = Present h' \<and>
                        length h' = length h \<and>
                        (\<forall>x \<in> set h'.
                           hist_id x = quiz_id q' \<longrightarrow>
                           percentage x = Some (score q' * 100 div int ?n) \<and>
                           hist_score x =
                             Some (str_int (score q') @ ''/'' @ str_int (int ?n)) \<and>
                           status x = ''completed''))"
      using cur q'(2,3,5,6) r0 r1 r2 r3 hs by (intro exI [of _ q'] conjI)
  qed
  have rc: "\<forall>cs q0. current_quiz (run_session cs initial_userdata) = Present (Some q0) \<longrightarrow>
            1 \<le> length (questions q0) \<and> length (questions q0) \<le> 10 \<and>
            0 \<le> score q0 \<and> score q0 \<le> int (length (questions q0))"
  proof (intro allI impI)
    fix cs q0
    assume "current_quiz (run_session cs initial_userdata) = Present (Some q0)"
    then have "quiz_wf q0"
      by (rule reachable_active_quiz)
    then show "1 \<le> length (questions q0) \<and> length (questions q0) \<le> 10 \<and>
            0 \<le> score q0 \<and> score q0 \<le> int (length (questions q0))"
      unfolding quiz_wf_def by linarith
  qed
  show ?thesis
    using fl eq st rs nc cm rc by (intro conjI)
qed


lemma skipped_last_question:
  "current_quiz (snd (call_tool no_room_env SkipQuestion last_question_session)) =
     Present (Some (record_answer (three_question_quiz\<lparr>current_question_index := 2, score := 1\<rparr>)
                      ''SKIPPED'' False))"
  by code_simp

theorem percentages_truncate_example:
  "get_quiz_status ok_env (snd (call_tool no_room_env SkipQuestion last_question_session)) =
     (Inr ''Quiz completed! Final score: 1/3 (33%)'',
      snd (call_tool no_room_env SkipQuestion last_question_session)) \<and>
   fst (call_tool no_room_env SkipQuestion last_question_session) =
     Inr ''Quiz completed! Final score: 1/3 (33%)'' \<and>
   fst (call_tool no_room_env (SubmitAnswer ''b'') last_question_session) =
     Inr ''Quiz completed! Final score: 2/3 (66%)'' \<and>
   fst (call_tool ok_env (SubmitAnswer ''b'') last_question_session) =
     Inr ''Quiz completed! You scored 2/3 (66%). Great job!'' \<and>
   fst (show_quiz_results ok_env (snd (call_tool no_room_env (SubmitAnswer ''b'')
          last_question_session))) =
     Inr ''Here are your detailed results: 2/3 correct (66%)'' \<and>
   map_attr (map percentage)
     (quiz_history (snd (call_tool no_room_env (SubmitAnswer ''b'') last_question_session))) =
     Present [Some 66] \<and>
   map_attr (map hist_score)
     (quiz_history (snd (call_tool no_room_env (SubmitAnswer ''b'') last_question_session))) =
     Present [Some ''2/3''] \<and>
   fst (show_quiz_results ok_env last_question_session) =
     Inr ''Quiz is not completed yet. Finish the quiz first.''"
proof (intro conjI)
  let ?q = "record_answer (three_question_quiz\<lparr>current_question_index := 2, score := 1\<rparr>)
              ''SKIPPED'' False"
  have f: "completed ?q" "score ?q = 1" "length (questions ?q) = 3"
    by (simp_all add: record_answer_fields three_question_quiz_def)
  have h: "1 \<le> length (questions ?q)" "length (questions ?q) \<le> 10" "0 \<le> score ?q"
    "score ?q \<le> int (length (questions ?q))"
    using f by simp_all
  show "get_quiz_status ok_env (snd (call_tool no_room_env SkipQuestion last_question_session)) =
     (Inr ''Quiz completed! Final score: 1/3 (33%)'',
      snd (call_tool no_room_env SkipQuestion last_question_session))"
    using percentages_truncate [OF skipped_last_question h, of ok_env] f
    by (simp add: str_int_examples)
qed code_simp+

subsection \<open>Moves commit before the frontend is contacted\<close>

lemma show_next_question_failed:
  assumes "frontend_failed e"
  shows "show_next_question e q \<in>
           {''Moving to next question, but couldn't display it'', ''No participants'',
            ''Moving to next question''}"
proof (cases "room e")
  case None
  then show ?thesis by (simp add: show_next_question_def)
next
  case (Some ps)
  show ?thesis
  proof (cases ps)
    case Nil
    then show ?thesis using Some by (simp add: show_next_question_def)
  next
    case (Cons p ps')
    have f: "rpc_fault (rpc e p req)" for req
      using assms Some Cons by (simp add: frontend_failed_def first_participant_def)
    show ?thesis
    proof (cases "py_index (questions q) (current_question_index q)")
      case (Inl err)
      then show ?thesis
        using Some Cons by (simp add: show_next_question_def first_participant_def)
    next
      case (Inr pos)
      then show ?thesis
        using Some Cons
          f [of "NextQuestion (quiz_id q)
                  (QuestionPayload (current_question_index q)
                     (question_text (questions q ! pos)) (options (questions q ! pos))
                     (question_id (questions q ! pos)))
                  (current_question_index q + 1) (int (length (questions q))) (score q)"]
        by (simp add: show_next_question_def first_participant_def Let_def rpc_fault_def
              split: rpc_result.splits)
    qed
  qed
qed

lemma show_next_question_acknowledged:
  assumes "frontend_acknowledges e"
    and "0 \<le> current_question_index q"
    and "current_question_index q < int (length (questions q))"
  shows "show_next_question e q =
           ''Moving to question '' @ str_int (current_question_index q + 1) @ ''.''"
proof -
  obtain p ps where r: "room e = Some (p # ps)"
    and a: "\<forall>req. \<exists>err. rpc e p req = BodyObject True err"
    using assms(1)
    by (auto simp: frontend_acknowledges_def first_participant_def
          split: option.splits list.splits)
  let ?pos = "nat (current_question_index q)"
  obtain err where "rpc e p (NextQuestion (quiz_id q)
                  (QuestionPayload (current_question_index q)
                     (question_text (questions q ! ?pos)) (options (questions q ! ?pos))
                     (question_id (questions q ! ?pos)))
                  (current_question_index q + 1) (int (length (questions q))) (score q))
                = BodyObject True err"
    using a by blast
  then show ?thesis
    using r by (simp add: show_next_question_def first_participant_def Let_def
                  py_index_in_range [OF assms(2,3)])
qed

lemma complete_quiz_reply_failed:
  assumes "frontend_failed e"
  shows "complete_quiz_reply e q pct \<in>
           {''Quiz completed! Final score: '' @ score_text q @ '' ('' @ str_int pct @ ''%)'',
            ''Quiz completed! Score: '' @ score_text q}"
proof (cases "room e")
  case None
  then show ?thesis by (simp add: complete_quiz_reply_def)
next
  case (Some ps)
  show ?thesis
  proof (cases ps)
    case Nil
    then show ?thesis using Some by (simp add: complete_quiz_reply_def)
  next
    case (Cons p ps')
    have f: "rpc_fault (rpc e p req)" for req
      using assms Some Cons by (simp add: frontend_failed_def first_participant_def)
    show ?thesis
      using Some Cons
        f [of "CompleteQuiz (quiz_id q) (score q) (int (length (questions q))) pct"]
      by (simp add: complete_quiz_reply_def first_participant_def Let_def rpc_fault_def
            split: rpc_result.splits)
  qed
qed

lemma complete_quiz_reply_acknowledged:
  assumes "frontend_acknowledges e"
  shows "complete_quiz_reply e q pct =
           ''Quiz completed! You scored '' @ score_text q @ '' ('' @ str_int pct @ ''%). Great job!''"
proof -
  obtain p ps where r: "room e = Some (p # ps)"
    and a: "\<forall>req. \<exists>err. rpc e p req = BodyObject True err"
    using assms(1)
    by (auto simp: frontend_acknowledges_def first_participant_def
          split: option.splits list.splits)
  obtain err where "rpc e p (CompleteQuiz (quiz_id q) (score q) (int (length (questions q))) pct)
                = BodyObject True err"
    using a by blast
  then show ?thesis
    using r by (simp add: complete_quiz_reply_def first_participant_def Let_def)
qed



lemma move_result_env:
  assumes "current_quiz ud = Present (Some q)" and "quiz_wf q" and "\<not> completed q"
    and "is_move c"
  shows "\<exists>ans ok. \<forall>r f.
           call_tool (e\<lparr>room := r, rpc := f\<rparr>) c ud =
             after_move (e\<lparr>room := r, rpc := f\<rparr>) ud (record_answer q ans ok)"
proof (cases c)
  case (SubmitAnswer a)
  have "call_tool (e\<lparr>room := r, rpc := f\<rparr>) c ud =
          after_move (e\<lparr>room := r, rpc := f\<rparr>) ud
            (record_answer q (upper (unicode_upper e) a)
               (upper (unicode_upper e) a =
                upper (unicode_upper e)
                  (correct_answer (questions q ! nat (current_question_index q)))))" for r f
    using submit_answer_result [OF assms(1-3), of "e\<lparr>room := r, rpc := f\<rparr>" a]
    by (simp add: SubmitAnswer call_tool_def)
  then show ?thesis by blast
next
  case SkipQuestion
  have "call_tool (e\<lparr>room := r, rpc := f\<rparr>) c ud =
          after_move (e\<lparr>room := r, rpc := f\<rparr>) ud (record_answer q ''SKIPPED'' False)" for r f
    using skip_question_result [OF assms(1-3), of "e\<lparr>room := r, rpc := f\<rparr>"]
    by (simp add: SkipQuestion call_tool_def)
  then show ?thesis by blast
qed (use assms(4) in \<open>simp_all add: is_move_def\<close>)

lemma env_same: "e\<lparr>room := room e, rpc := rpc e\<rparr> = e"
  by simp

lemma after_move_open:
  assumes "\<not> completed q'"
  shows "fst (after_move e ud q') = Inr (show_next_question e q')"
  using assms by (simp add: after_move_def)

lemma after_move_completed:
  assumes "completed q'" and "quiz_history ud \<noteq> Absent"
  shows "fst (after_move e ud q') =
           Inr (complete_quiz_reply e q' (score q' * 100 div int (length (questions q'))))"
  using assms by (cases "quiz_history ud") (simp_all add: after_move_def final_percentage_def)


text \<open>
  C7, as the code has it: take a submit or skip on a well-formed, not completed quiz
  (every quiz of a session is well formed). The session state it leaves is the same
  whatever the room and the peer do, so it does not depend on the outcome of the
  exchange with the frontend; the index of the quiz has advanced by one, and a status
  query made afterwards, in any environment, reports the advanced quiz. When questions
  remain the call returns a string, and when the frontend has failed (no room, no
  participant, timeout, transport fault, undecodable body) that string is one of the
  plain sentences "Moving to next question, but couldn't display it", "No participants"
  and "Moving to next question". When the move completes the quiz and the session has
  its history list, the call returns a string, which after a failure is "Quiz completed!
  Final score: s/n (p%)" or "Quiz completed! Score: s/n". None of these sentences says
  what failed.
\<close>

theorem moves_commit_before_rpc:
  assumes "current_quiz ud = Present (Some q)" and "quiz_wf q" and "\<not> completed q"
    and "is_move c"
  shows "snd (call_tool (e\<lparr>room := r, rpc := f\<rparr>) c ud) = snd (call_tool e c ud) \<and>
         (\<exists>q'. current_quiz (snd (call_tool e c ud)) = Present (Some q') \<and>
               current_question_index q' = current_question_index q + 1 \<and>
               length (questions q') = length (questions q) \<and>
               (completed q' \<longleftrightarrow> current_question_index q + 1 = int (length (questions q))) \<and>
               call_tool e2 GetQuizStatus (snd (call_tool e c ud)) =
                 (Inr (if completed q'
                       then ''Quiz completed! Final score: '' @ str_int (score q') @ ''/''
                            @ str_int (int (length (questions q))) @ '' (''
                            @ str_int (score q' * 100 div int (length (questions q))) @ ''%)''
                       else ''Currently on question '' @ str_int (current_question_index q + 2)
                            @ '' of '' @ str_int (int (length (questions q)))
                            @ ''. Score so far: '' @ str_int (score q') @ ''/''
                            @ str_int (current_question_index q + 1) @ '' answered correctly.''),
                  snd (call_tool e c ud)) \<and>
               (current_question_index q + 1 < int (length (questions q)) \<longrightarrow>
                  (\<exists>s. fst (call_tool e c ud) = Inr s) \<and>
                  (frontend_failed e \<longrightarrow>
                     fst (call_tool e c ud) \<in> Inr `
                       {''Moving to next question, but couldn't display it'',
                        ''No participants'', ''Moving to next question''})) \<and>
               (current_question_index q + 1 = int (length (questions q)) \<and>
                quiz_history ud \<noteq> Absent \<longrightarrow>
                  (\<exists>s. fst (call_tool e c ud) = Inr s) \<and>
                  (frontend_failed e \<longrightarrow>
                     fst (call_tool e c ud) \<in> Inr `
                       {''Quiz completed! Final score: '' @ str_int (score q') @ ''/''
                          @ str_int (int (length (questions q))) @ '' (''
                          @ str_int (score q' * 100 div int (length (questions q))) @ ''%)'',
                        ''Quiz completed! Score: '' @ str_int (score q') @ ''/''
                          @ str_int (int (length (questions q)))}))) \<and>
         (\<forall>cs q0. current_quiz (run_session cs initial_userdata) = Present (Some q0) \<longrightarrow>
            quiz_wf q0)"
proof -
  let ?n = "length (questions q)"
  obtain ans ok where r: "\<And>r f. call_tool (e\<lparr>room := r, rpc := f\<rparr>) c ud =
             after_move (e\<lparr>room := r, rpc := f\<rparr>) ud (record_answer q ans ok)"
    using move_result_env [OF assms, of e] by blast
  let ?q = "record_answer q ans ok"
  have re: "call_tool e c ud = after_move e ud ?q"
    using r [where r = "room e" and f = "rpc e"] by simp
  have same: "snd (call_tool (e\<lparr>room := r, rpc := f\<rparr>) c ud) = snd (call_tool e c ud)"
    unfolding r re by (rule snd_after_move)
  have cur: "current_quiz (snd (call_tool e c ud)) = Present (Some ?q)"
    by (simp add: re after_move_current)
  have wf': "quiz_wf ?q"
    by (rule record_answer_wf [OF assms(2,3)])
  have idx: "current_question_index ?q = current_question_index q + 1"
    and fin: "completed ?q \<longleftrightarrow> current_question_index q + 1 = int ?n"
    and len: "length (questions ?q) = ?n"
    by (simp_all add: record_answer_fields)
  have b: "0 \<le> score ?q" "1 \<le> length (questions ?q)"
    using wf' by (auto simp: quiz_wf_def)
  have stx: "score_text ?q = str_int (score ?q) @ ''/'' @ str_int (int ?n)"
    by (simp add: score_text_def len)
  have st: "call_tool e2 GetQuizStatus (snd (call_tool e c ud)) =
                 (Inr (if completed ?q
                       then ''Quiz completed! Final score: '' @ str_int (score ?q) @ ''/''
                            @ str_int (int ?n) @ '' (''
                            @ str_int (score ?q * 100 div int ?n) @ ''%)''
                       else ''Currently on question '' @ str_int (current_question_index q + 2)
                            @ '' of '' @ str_int (int ?n)
                            @ ''. Score so far: '' @ str_int (score ?q) @ ''/''
                            @ str_int (current_question_index q + 1) @ '' answered correctly.''),
                  snd (call_tool e c ud))"
  proof -
    have gs: "call_tool e2 GetQuizStatus x = get_quiz_status e2 x" for x
      by (simp add: call_tool_def)
    have two: "current_question_index ?q + 1 = current_question_index q + 2"
      using idx by simp
    show ?thesis
      unfolding gs get_quiz_status_active [OF cur b, of e2] two len stx
      using idx by simp
  qed
  have op: "current_question_index q + 1 < int ?n \<longrightarrow>
                  (\<exists>s. fst (call_tool e c ud) = Inr s) \<and>
                  (frontend_failed e \<longrightarrow>
                     fst (call_tool e c ud) \<in> Inr `
                       {''Moving to next question, but couldn't display it'',
                        ''No participants'', ''Moving to next question''})"
  proof
    assume "current_question_index q + 1 < int ?n"
    then have "\<not> completed ?q"
      using fin by simp
    then have "fst (call_tool e c ud) = Inr (show_next_question e ?q)"
      unfolding re by (rule after_move_open)
    then show "(\<exists>s. fst (call_tool e c ud) = Inr s) \<and>
                  (frontend_failed e \<longrightarrow>
                     fst (call_tool e c ud) \<in> Inr `
                       {''Moving to next question, but couldn't display it'',
                        ''No participants'', ''Moving to next question''})"
      using show_next_question_failed [of e ?q] by auto
  qed
  have cl: "current_question_index q + 1 = int ?n \<and> quiz_history ud \<noteq> Absent \<longrightarrow>
                  (\<exists>s. fst (call_tool e c ud) = Inr s) \<and>
                  (frontend_failed e \<longrightarrow>
                     fst (call_tool e c ud) \<in> Inr `
                       {''Quiz completed! Final score: '' @ str_int (score ?q) @ ''/''
                          @ str_int (int ?n) @ '' (''
                          @ str_int (score ?q * 100 div int ?n) @ ''%)'',
                        ''Quiz completed! Score: '' @ str_int (score ?q) @ ''/''
                          @ str_int (int ?n)})"
  proof
    assume a: "current_question_index q + 1 = int ?n \<and> quiz_history ud \<noteq> Absent"
    then have "completed ?q"
      using fin by simp
    then have "fst (call_tool e c ud) =
                 Inr (complete_quiz_reply e ?q (score ?q * 100 div int ?n))"
      unfolding re using after_move_completed [of ?q ud e] a len by simp
    then show "(\<exists>s. fst (call_tool e c ud) = Inr s) \<and>
                  (frontend_failed e \<longrightarrow>
                     fst (call_tool e c ud) \<in> Inr `
                       {''Quiz completed! Final score: '' @ str_int (score ?q) @ ''/''
                          @ str_int (int ?n) @ '' (''
                          @ str_int (score ?q * 100 div int ?n) @ ''%)'',
                        ''Quiz completed! Score: '' @ str_int (score ?q) @ ''/''
                          @ str_int (int ?n)})"
      using complete_quiz_reply_failed [of e ?q "score ?q * 100 div int ?n"] stx by auto
  qed
  have ex: "\<exists>q'. current_quiz (snd (call_tool e c ud)) = Present (Some q') \<and>
               current_question_index q' = current_question_index q + 1 \<and>
               length (questions q') = ?n \<and>
               (completed q' \<longleftrightarrow> current_question_index q + 1 = int ?n) \<and>
               call_tool e2 GetQuizStatus (snd (call_tool e c ud)) =
                 (Inr (if completed q'
                       then ''Quiz completed! Final score: '' @ str_int (score q') @ ''/''
                            @ str_int (int ?n) @ '' (''
                            @ str_int (score q' * 100 div int ?n) @ ''%)''
                       else ''Currently on question '' @ str_int (current_question_index q + 2)
                            @ '' of '' @ str_int (int ?n)
                            @ ''. Score so far: '' @ str_int (score q') @ ''/''
                            @ str_int (current_question_index q + 1) @ '' answered correctly.''),
                  snd (call_tool e c ud)) \<and>
               (current_question_index q + 1 < int ?n \<longrightarrow>
                  (\<exists>s. fst (call_tool e c ud) = Inr s) \<and>
                  (frontend_failed e \<longrightarrow>
                     fst (call_tool e c ud) \<in> Inr `
                       {''Moving to next question, but couldn't display it'',
                        ''No participants'', ''Moving to next question''})) \<and>
               (current_question_index q + 1 = int ?n \<and> quiz_history ud \<noteq> Absent \<longrightarrow>
                  (\<exists>s. fst (call_tool e c ud) = Inr s) \<and>
                  (frontend_failed e \<longrightarrow>
                     fst (call_tool e c ud) \<in> Inr `
                       {''Quiz completed! Final score: '' @ str_int (score q') @ ''/''
                          @ str_int (int ?n) @ '' (''
                          @ str_int (score q' * 100 div int ?n) @ ''%)'',
                        ''Quiz completed! Score: '' @ str_int (score q') @ ''/''
                          @ str_int (int ?n)}))"
    using cur idx len fin st op cl by (intro exI [of _ ?q] conjI)
  have rc: "\<forall>cs q0. current_quiz (run_session cs initial_userdata) = Present (Some q0) \<longrightarrow>
            quiz_wf q0"
    using reachable_active_quiz by blast
  show ?thesis
    using same ex rc by (intro conjI)
qed


theorem moves_commit_before_rpc_example:
  "frontend_failed timeout_env \<and>
   snd (call_tool (timeout_env\<lparr>room := room ok_env, rpc := rpc ok_env\<rparr>) (SubmitAnswer ''a'')
          (run_session [(no_room_env, CreateQuiz ''algebra'' 5 ''medium'')] initial_userdata)) =
     snd (call_tool timeout_env (SubmitAnswer ''a'')
          (run_session [(no_room_env, CreateQuiz ''algebra'' 5 ''medium'')] initial_userdata)) \<and>
   fst (call_tool timeout_env (SubmitAnswer ''a'')
          (run_session [(no_room_env, CreateQuiz ''algebra'' 5 ''medium'')] initial_userdata)) =
     Inr ''Moving to next question'' \<and>
   fst (call_tool no_room_env GetQuizStatus
          (snd (call_tool timeout_env (SubmitAnswer ''a'')
             (run_session [(no_room_env, CreateQuiz ''algebra'' 5 ''medium'')] initial_userdata)))) =
     Inr ''Currently on question 2 of 2. Score so far: 1/1 answered correctly.''"
proof (intro conjI)
  let ?q = "\<lparr>quiz_id = ''id-4'', topic = ''algebra'', difficulty = ''medium'',
            questions = algebra_questions sample_uuid,
            current_question_index = 0, score = 0, completed = False\<rparr>"
  have n: "\<not> completed ?q"
    by simp
  have w: "quiz_wf ?q"
    by (simp add: quiz_wf_def)
  have m: "is_move (SubmitAnswer ''a'')"
    by (simp add: is_move_def)
  show "frontend_failed timeout_env"
    by (simp add: frontend_failed_def timeout_env_def first_participant_def rpc_fault_def)
  show "snd (call_tool (timeout_env\<lparr>room := room ok_env, rpc := rpc ok_env\<rparr>) (SubmitAnswer ''a'')
          (run_session [(no_room_env, CreateQuiz ''algebra'' 5 ''medium'')] initial_userdata)) =
     snd (call_tool timeout_env (SubmitAnswer ''a'')
          (run_session [(no_room_env, CreateQuiz ''algebra'' 5 ''medium'')] initial_userdata))"
    using moves_commit_before_rpc
      [OF algebra_session w n m, where e = timeout_env and r = "room ok_env" and f = "rpc ok_env"]
    by blast
qed code_simp+

text \<open>
  C7 as stated fails: the reply after a failure does not describe it. After a timeout, a
  transport fault and a body that is not JSON, \<open>submit_answer\<close> returns the same
  "Moving to next question"; after a timeout on the completing answer it returns "Quiz
  completed! Final score: 2/3 (66%)", word for word the sentence that the status query
  gives for that quiz when the frontend has acknowledged everything.
\<close>

theorem failure_replies_do_not_describe_the_failure:
  "fst (call_tool timeout_env (SubmitAnswer ''a'')
          (run_session [(no_room_env, CreateQuiz ''algebra'' 5 ''medium'')] initial_userdata)) =
     Inr ''Moving to next question'' \<and>
   fst (call_tool transport_failure_env (SubmitAnswer ''a'')
          (run_session [(no_room_env, CreateQuiz ''algebra'' 5 ''medium'')] initial_userdata)) =
     Inr ''Moving to next question'' \<and>
   fst (call_tool bad_body_env (SubmitAnswer ''a'')
          (run_session [(no_room_env, CreateQuiz ''algebra'' 5 ''medium'')] initial_userdata)) =
     Inr ''Moving to next question'' \<and>
   fst (call_tool timeout_env (SubmitAnswer ''b'') last_question_session) =
     Inr ''Quiz completed! Final score: 2/3 (66%)'' \<and>
   fst (call_tool ok_env GetQuizStatus
          (snd (call_tool ok_env (SubmitAnswer ''b'') last_question_session))) =
     Inr ''Quiz completed! Final score: 2/3 (66%)''"
  by code_simp

end
